theory Spec2Isabelle
  imports Main "HOL-Library.AList"
begin

section \<open>Errors\<close>

text \<open>
  A Go \<open>error\<close> is a value of the datatype \<open>error\<close>, and the nil error is \<open>None\<close> of
  \<open>error option\<close>. A function returning \<open>(T, error)\<close> returns \<open>error + T\<close>; the two
  functions of util.go whose callers read the other results beside the error return the
  triple of the source. A function that works on the file system takes the state and
  returns it with its result. \<open>Errorf\<close> keeps the format string of the source and its
  arguments; \<open>Wrapped e msg\<close> is what \<open>errors.Wrap(e, msg)\<close> of github.com/pkg/errors
  returns for a non-nil \<open>e\<close>.
\<close>

datatype errno =
  ENOENT | EEXIST | ENOTDIR | EISDIR | EINVAL | ENOTEMPTY | ELOOP | EXDEV | ENAMETOOLONG

datatype error =
    ErrIsAlreadyInstalled
  | ErrIsNotInstalled
  | ErrIsAlreadyUpgraded
  | New string
  | Errorf string "string list"
  | Wrapped error string
  | PathError string string errno
  | LinkError string string string errno
  | ErrGetwd
  | External string

text \<open>
  \<open>errors.Wrap\<close> and \<open>errors.Wrapf\<close> of github.com/pkg/errors: "If err is nil, Wrap
  returns nil." The arguments of the format are kept in a list.
\<close>

definition Wrap :: "error option \<Rightarrow> string \<Rightarrow> error option" where
  "Wrap err message = (case err of None \<Rightarrow> None | Some e \<Rightarrow> Some (Wrapped e message))"

definition Wrapf :: "error option \<Rightarrow> string \<Rightarrow> string list \<Rightarrow> error option" where
  "Wrapf err format args = (case err of None \<Rightarrow> None | Some e \<Rightarrow> Some (Wrapped e format))"

text \<open>\<open>os.IsNotExist\<close>, on the errors of the file system operations below.\<close>

fun IsNotExist :: "error \<Rightarrow> bool" where
  "IsNotExist (PathError opn path e) = (e = ENOENT)"
| "IsNotExist (LinkError opn old new e) = (e = ENOENT)"
| "IsNotExist e = False"

section \<open>Strings and paths\<close>

text \<open>
  A Go string is a list of bytes. \<open>ToLower\<close> is \<open>strings.ToLower\<close> on ASCII, which is where
  hexadecimal checksums live: the bytes \<open>A\<close> to \<open>Z\<close> move to \<open>a\<close> to \<open>z\<close>, every other byte
  stays (Go maps runes beyond ASCII through its Unicode tables, which are not modelled).
\<close>

definition toLowerByte :: "char \<Rightarrow> char" where
  "toLowerByte c = (let n = (of_char c :: nat) in if 65 \<le> n \<and> n \<le> 90 then char_of (n + 32) else c)"

definition ToLower :: "string \<Rightarrow> string" where
  "ToLower s = map toLowerByte s"

text \<open>\<open>strings.Replace(s, old, new, -1)\<close> for one-byte \<open>old\<close> and \<open>new\<close>.\<close>

definition ReplaceByte :: "string \<Rightarrow> char \<Rightarrow> char \<Rightarrow> string" where
  "ReplaceByte s old new = map (\<lambda>c. if c = old then new else c) s"

text \<open>\<open>strings.HasSuffix\<close>.\<close>

definition HasSuffix :: "string \<Rightarrow> string \<Rightarrow> bool" where
  "HasSuffix s suffix = (length suffix \<le> length s \<and> drop (length s - length suffix) s = suffix)"

text \<open>
  The package path/filepath as it is built for Unix: the separator is the slash, there are
  no volume names, and \<open>FromSlash\<close> changes nothing. \<open>splitSep\<close> is \<open>strings.Split(s, "/")\<close>
  and \<open>joinSep\<close> is \<open>strings.Join(elems, "/")\<close>.
\<close>

fun splitSep :: "string \<Rightarrow> string list" where
  "splitSep [] = [[]]"
| "splitSep (c # cs) =
     (if c = CHR ''/'' then [] # splitSep cs
      else (case splitSep cs of [] \<Rightarrow> [[c]] | e # es \<Rightarrow> (c # e) # es))"

fun joinSep :: "string list \<Rightarrow> string" where
  "joinSep [] = []"
| "joinSep [e] = e"
| "joinSep (e # es) = e @ CHR ''/'' # joinSep es"

definition FromSlash :: "string \<Rightarrow> string" where
  "FromSlash path = path"

definition IsAbs :: "string \<Rightarrow> bool" where
  "IsAbs path = (case path of [] \<Rightarrow> False | c # cs \<Rightarrow> c = CHR ''/'')"

text \<open>
  \<open>filepath.Clean\<close>, by path elements: empty elements and \<open>.\<close> are dropped; \<open>..\<close> removes
  the element before it, stays when that element is itself \<open>..\<close> or when a relative path
  has nothing before it, and is dropped at the root of a rooted path. The stack of
  \<open>cleanElems\<close> holds the elements kept so far, last one first. The empty result is \<open>.\<close>.
\<close>

definition pathElems :: "string \<Rightarrow> string list" where
  "pathElems path = filter (\<lambda>e. e \<noteq> [] \<and> e \<noteq> ''.'') (splitSep path)"

fun cleanElems :: "bool \<Rightarrow> string list \<Rightarrow> string list \<Rightarrow> string list" where
  "cleanElems rooted stack [] = rev stack"
| "cleanElems rooted stack (e # es) =
     (if e = ''..'' then
        (case stack of
           [] \<Rightarrow> if rooted then cleanElems rooted [] es else cleanElems rooted [''..''] es
         | t # ts \<Rightarrow> if t = ''..'' then cleanElems rooted (''..'' # stack) es
                     else cleanElems rooted ts es)
      else cleanElems rooted (e # stack) es)"

definition Clean :: "string \<Rightarrow> string" where
  "Clean path =
     (let rooted = IsAbs path;
          out = (if rooted then ''/'' else []) @ joinSep (cleanElems rooted [] (pathElems path))
      in if out = [] then ''.'' else out)"

text \<open>
  \<open>filepath.Join\<close>: leading empty elements are skipped, the rest is joined by the
  separator and cleaned; the join of nothing but empty elements is the empty string.
\<close>

definition Join :: "string list \<Rightarrow> string" where
  "Join elem = (case dropWhile (\<lambda>e. e = []) elem of [] \<Rightarrow> [] | es \<Rightarrow> Clean (joinSep es))"

text \<open>
  \<open>filepath.Base\<close>: the last element of the path, trailing slashes removed first; \<open>.\<close>
  for the empty path and the separator for a path of slashes only.
\<close>

definition stripTrailingSep :: "string \<Rightarrow> string" where
  "stripTrailingSep path = rev (dropWhile (\<lambda>c. c = CHR ''/'') (rev path))"

definition Base :: "string \<Rightarrow> string" where
  "Base path =
     (if path = [] then ''.''
      else let p = stripTrailingSep path;
               b = rev (takeWhile (\<lambda>c. c \<noteq> CHR ''/'') (rev p))
           in if b = [] then ''/'' else b)"

text \<open>\<open>filepath.Dir\<close>: everything up to the last separator, cleaned.\<close>

definition Dir :: "string \<Rightarrow> string" where
  "Dir path = Clean (rev (dropWhile (\<lambda>c. c \<noteq> CHR ''/'') (rev path)))"

text \<open>
  \<open>filepath.Rel\<close>: both paths are cleaned, and \<open>relClean\<close> works on the cleaned paths,
  the base \<open>.\<close> taken as the empty path. A rooted and an unrooted path have no
  relative form. The common leading elements are dropped; where the two paths part, a
  base that goes on with \<open>..\<close> has no relative form; otherwise every element left
  of the base becomes \<open>..\<close> and the rest of the target follows.
\<close>

fun dropCommon :: "string list \<Rightarrow> string list \<Rightarrow> string list \<times> string list" where
  "dropCommon (b # bs) (t # ts) = (if b = t then dropCommon bs ts else (b # bs, t # ts))"
| "dropCommon bs ts = (bs, ts)"

definition relElems :: "string \<Rightarrow> string list" where
  "relElems path = filter (\<lambda>e. e \<noteq> []) (splitSep path)"

definition relClean :: "string \<Rightarrow> string \<Rightarrow> string option" where
  "relClean base targ =
     (if targ = base then Some ''.''
      else
        let base' = (if base = ''.'' then [] else base) in
        if IsAbs base' \<noteq> IsAbs targ then None
        else
          (case dropCommon (relElems base') (relElems targ) of (bs, ts) \<Rightarrow>
             if take 1 bs = [''..''] \<and> ts \<noteq> [] then None
             else Some (joinSep (replicate (length bs) ''..'' @ ts))))"

definition Rel :: "string \<Rightarrow> string \<Rightarrow> error + string" where
  "Rel basepath targpath =
     (case relClean (Clean basepath) (Clean targpath) of
        None \<Rightarrow> Inl (New (''Rel: can't make '' @ targpath @ '' relative to '' @ basepath))
      | Some rel \<Rightarrow> Inr rel)"

section \<open>The file system\<close>

text \<open>
  The state the installation code works on. \<open>files\<close> lists what exists, each entry under
  its name from the root, which has no symbolic link in it; the root directory always
  exists and has no entry. \<open>trace\<close> records every call that reaches the file system,
  reads as well as writes, in order. \<open>cwd\<close> is the working directory as \<open>os.Getwd\<close>
  reports it, an absolute name; any other string stands for a working directory that
  cannot be determined. The remaining fields are the constants of package runtime and
  the two environment variables that override them (the empty string for a variable
  that is not set).

  Permission bits are not modelled: every entry can be read and written.
\<close>

datatype node = File string | Directory | Symlink string

datatype syscall =
    SysStat string
  | SysLstat string
  | SysReadlink string
  | SysGlob string
  | SysMkdirAll string
  | SysRename string string
  | SysRemove string
  | SysRemoveAll string
  | SysSymlink string string
  | SysOpenFile string bool
  | SysWrite string
  | SysExternal string

record world =
  files :: "(string \<times> node) list"
  trace :: "syscall list"
  cwd :: string
  GOOS :: string
  GOARCH :: string
  KREW_OS :: string
  KREW_ARCH :: string

definition called :: "syscall \<Rightarrow> world \<Rightarrow> world" where
  "called c w = w\<lparr>trace := trace w @ [c]\<rparr>"

definition Getwd :: "world \<Rightarrow> error + string" where
  "Getwd w = (if IsAbs (cwd w) then Inr (cwd w) else Inl ErrGetwd)"

text \<open>\<open>filepath.Abs\<close>.\<close>

definition Abs :: "world \<Rightarrow> string \<Rightarrow> error + string" where
  "Abs w path =
     (if IsAbs path then Inr (Clean path)
      else (case Getwd w of Inl err \<Rightarrow> Inl err | Inr wd \<Rightarrow> Inr (Join [wd, path])))"

definition lookup :: "(string \<times> node) list \<Rightarrow> string \<Rightarrow> node option" where
  "lookup fs k = (if k = ''/'' then Some Directory else map_of fs k)"

definition under :: "string \<Rightarrow> string \<Rightarrow> bool" where
  "under dir k = (dir = ''/'' \<or> k = dir \<or> take (length dir + 1) k = dir @ ''/'')"

definition nonEmptyDir :: "(string \<times> node) list \<Rightarrow> string \<Rightarrow> bool" where
  "nonEmptyDir fs k = list_ex (\<lambda>e. fst e \<noteq> k \<and> under k (fst e)) fs"

text \<open>
  The resolution of a name, as the system does it for every call below. \<open>walk\<close> goes
  through the elements of the name from the directory \<open>dir\<close> (the empty string for the
  root): an empty element and \<open>.\<close> stay where they are, \<open>..\<close> goes to the parent, an
  element of more than 255 bytes is \<open>ENAMETOOLONG\<close>. An element that is followed by
  another must be there (\<open>ENOENT\<close>) and be a directory (\<open>ENOTDIR\<close> for a regular file) or
  a symbolic link, which is followed: its target is walked from the root when it is
  absolute and from the directory of the link otherwise, and the forty-first link of
  one resolution is \<open>ELOOP\<close>. The last element need not exist; a symbolic link there is
  followed when \<open>follow\<close> holds. The result is the name from the root of what the name
  leads to. \<open>namei\<close> starts the walk: at the root for an absolute name, at the working
  directory otherwise; the empty name is \<open>ENOENT\<close>, a name of \<open>PATH_MAX\<close> = 4096 bytes or
  more is \<open>ENAMETOOLONG\<close>, and Go does not pass a name with a zero byte to the system
  but returns \<open>EINVAL\<close>.
\<close>

definition parent :: "string \<Rightarrow> string" where
  "parent dir = rev (drop 1 (dropWhile (\<lambda>c. c \<noteq> CHR ''/'') (rev dir)))"

fun walk :: "nat \<Rightarrow> (string \<times> node) list \<Rightarrow> bool \<Rightarrow> string \<Rightarrow> string list \<Rightarrow> errno + string" where
  "walk n fs follow dir [] = Inr (if dir = [] then ''/'' else dir)"
| "walk n fs follow dir (e # es) =
     (if e = [] \<or> e = ''.'' then walk n fs follow dir es
      else if e = ''..'' then walk n fs follow (parent dir) es
      else if 255 < length e then Inl ENAMETOOLONG
      else
        (case map_of fs (dir @ ''/'' @ e) of
           None \<Rightarrow> if es = [] then Inr (dir @ ''/'' @ e) else Inl ENOENT
         | Some (File c) \<Rightarrow> if es = [] then Inr (dir @ ''/'' @ e) else Inl ENOTDIR
         | Some Directory \<Rightarrow> walk n fs follow (dir @ ''/'' @ e) es
         | Some (Symlink t) \<Rightarrow>
             if es = [] \<and> \<not> follow then Inr (dir @ ''/'' @ e)
             else if t = [] then Inl ENOENT
             else
               (case n of
                  0 \<Rightarrow> Inl ELOOP
                | Suc m \<Rightarrow> walk m fs follow (if IsAbs t then [] else dir) (splitSep t @ es))))"

definition namei :: "world \<Rightarrow> bool \<Rightarrow> string \<Rightarrow> errno + string" where
  "namei w follow name =
     (if name = [] then Inl ENOENT
      else if CHR 0x00 \<in> set name then Inl EINVAL
      else if 4096 \<le> length name then Inl ENAMETOOLONG
      else if IsAbs name then walk 40 (files w) follow [] (splitSep name)
      else if IsAbs (cwd w) then walk 40 (files w) follow [] (splitSep (cwd w) @ splitSep name)
      else Inl ENOENT)"

text \<open>
  The system calls \<open>lstat\<close> and \<open>stat\<close>: what a name leads to, a symbolic link at its
  end taken as it is or followed. \<open>os.Lstat\<close>, \<open>os.Stat\<close> and \<open>os.Readlink\<close> put the error
  of the system into a \<open>PathError\<close>; reading something that is not a symbolic link is
  \<open>EINVAL\<close>.
\<close>

definition lstat :: "world \<Rightarrow> string \<Rightarrow> errno + node" where
  "lstat w name =
     (case namei w False name of
        Inl e \<Rightarrow> Inl e
      | Inr k \<Rightarrow> (case lookup (files w) k of None \<Rightarrow> Inl ENOENT | Some n \<Rightarrow> Inr n))"

definition stat :: "world \<Rightarrow> string \<Rightarrow> errno + node" where
  "stat w name =
     (case namei w True name of
        Inl e \<Rightarrow> Inl e
      | Inr k \<Rightarrow> (case lookup (files w) k of None \<Rightarrow> Inl ENOENT | Some n \<Rightarrow> Inr n))"

definition os_Lstat :: "string \<Rightarrow> world \<Rightarrow> (error + node) \<times> world" where
  "os_Lstat name w =
     ((case lstat w name of
         Inl e \<Rightarrow> Inl (PathError ''lstat'' name e)
       | Inr n \<Rightarrow> Inr n),
      called (SysLstat name) w)"

definition os_Stat :: "string \<Rightarrow> world \<Rightarrow> (error + node) \<times> world" where
  "os_Stat name w =
     ((case stat w name of
         Inl e \<Rightarrow> Inl (PathError ''stat'' name e)
       | Inr n \<Rightarrow> Inr n),
      called (SysStat name) w)"

definition os_Readlink :: "string \<Rightarrow> world \<Rightarrow> (error + string) \<times> world" where
  "os_Readlink name w =
     ((case lstat w name of
         Inl e \<Rightarrow> Inl (PathError ''readlink'' name e)
       | Inr (Symlink t) \<Rightarrow> Inr t
       | Inr n \<Rightarrow> Inl (PathError ''readlink'' name EINVAL)),
      called (SysReadlink name) w)"

text \<open>
  \<open>os.MkdirAll\<close>, as package os writes it: a path that is a directory is done, a path
  that is something else is \<open>ENOTDIR\<close>; otherwise the parent, which is the path up to
  the separator before its last element, is made first and then the directory itself,
  and a failure of that is no failure when the directory is there after all.
\<close>

definition parentPath :: "string \<Rightarrow> string option" where
  "parentPath path =
     (let upto = rev (dropWhile (\<lambda>c. c \<noteq> CHR ''/'') (rev (stripTrailingSep path)))
      in if 1 < length upto then Some (butlast upto) else None)"

definition mkdir :: "string \<Rightarrow> world \<Rightarrow> errno option \<times> world" where
  "mkdir name w =
     (case namei w False name of
        Inl e \<Rightarrow> (Some e, w)
      | Inr k \<Rightarrow>
          if lookup (files w) k \<noteq> None then (Some EEXIST, w)
          else (None, w\<lparr>files := AList.update k Directory (files w)\<rparr>))"

function MkdirAll :: "string \<Rightarrow> world \<Rightarrow> error option \<times> world" where
  "MkdirAll path w =
     (case stat w path of
        Inr Directory \<Rightarrow> (None, w)
      | Inr n \<Rightarrow> (Some (PathError ''mkdir'' path ENOTDIR), w)
      | Inl e \<Rightarrow>
          (case (case parentPath path of None \<Rightarrow> (None, w) | Some par \<Rightarrow> MkdirAll par w) of
             (Some err, w1) \<Rightarrow> (Some err, w1)
           | (None, w1) \<Rightarrow>
               (case mkdir path w1 of
                  (None, w2) \<Rightarrow> (None, w2)
                | (Some e1, w2) \<Rightarrow>
                    (case lstat w2 path of
                       Inr Directory \<Rightarrow> (None, w2)
                     | _ \<Rightarrow> (Some (PathError ''mkdir'' path e1), w2)))))"
  by pat_completeness auto

termination MkdirAll
proof (relation "measure (\<lambda>(path, w). length path)")
  show "wf (measure (\<lambda>(path, w). length path))"
    by simp
next
  fix path :: string and w :: world and e :: errno and par :: string
  assume "parentPath path = Some par"
  then have "length par < length (dropWhile (\<lambda>c. c \<noteq> CHR ''/'') (rev (stripTrailingSep path)))"
    by (auto simp: parentPath_def Let_def split: if_splits)
  also have "\<dots> \<le> length (stripTrailingSep path)"
    using length_dropWhile_le [of "\<lambda>c. c \<noteq> CHR ''/''" "rev (stripTrailingSep path)"] by simp
  also have "\<dots> \<le> length path"
    using length_dropWhile_le [of "\<lambda>c. c = CHR ''/''" "rev path"] by (simp add: stripTrailingSep_def)
  finally show "((par, w), (path, w)) \<in> measure (\<lambda>(path, w). length path)"
    by simp
qed

definition os_MkdirAll :: "string \<Rightarrow> world \<Rightarrow> error option \<times> world" where
  "os_MkdirAll name w =
     (case MkdirAll name w of (err, w1) \<Rightarrow> (err, called (SysMkdirAll name) w1))"

text \<open>
  \<open>os.Rename\<close>: Go refuses a new name that is an existing directory before it asks the
  system; the system then wants the old name to exist and the directory of the new
  name to be one, does not put a directory over something else or into itself, and
  moves the entry with everything under it.
\<close>

definition moveTree :: "string \<Rightarrow> string \<Rightarrow> (string \<times> node) list \<Rightarrow> (string \<times> node) list" where
  "moveTree old new fs =
     map (\<lambda>e. if under old (fst e) then (new @ drop (length old) (fst e), snd e) else e)
       (filter (\<lambda>e. fst e \<noteq> new) fs)"

definition os_Rename :: "string \<Rightarrow> string \<Rightarrow> world \<Rightarrow> error option \<times> world" where
  "os_Rename oldname newname w =
     (let w' = called (SysRename oldname newname) w;
          failed = (\<lambda>e. (Some (LinkError ''rename'' oldname newname e), w'))
      in if lstat w newname = Inr Directory then failed EEXIST
         else if CHR 0x00 \<in> set oldname \<or> CHR 0x00 \<in> set newname then failed EINVAL
         else
           (case namei w False oldname of
              Inl e \<Rightarrow> failed e
            | Inr old \<Rightarrow>
                (case namei w False newname of
                   Inl e \<Rightarrow> failed e
                 | Inr new \<Rightarrow>
                     (case lookup (files w) old of
                        None \<Rightarrow> failed ENOENT
                      | Some n \<Rightarrow>
                          if n = Directory \<and> lookup (files w) new \<noteq> None then failed ENOTDIR
                          else if n = Directory \<and> under old new then failed EINVAL
                          else if old = new then (None, w')
                          else (None, w'\<lparr>files := moveTree old new (files w)\<rparr>)))))"

text \<open>
  \<open>os.RemoveAll\<close> removes what the name leads to with everything under it, and returns
  nil when there is nothing of that name. \<open>os.Remove\<close> removes a file, a link or an
  empty directory. \<open>os.Symlink\<close> makes a link where nothing is.
\<close>

definition os_RemoveAll :: "string \<Rightarrow> world \<Rightarrow> error option \<times> world" where
  "os_RemoveAll name w =
     (let w' = called (SysRemoveAll name) w in
      case namei w False name of
        Inl e \<Rightarrow> (if e = ENOENT \<or> e = ENOTDIR then None else Some (PathError ''lstat'' name e), w')
      | Inr k \<Rightarrow> (None, w'\<lparr>files := filter (\<lambda>e. \<not> under k (fst e)) (files w)\<rparr>))"

definition os_Remove :: "string \<Rightarrow> world \<Rightarrow> error option \<times> world" where
  "os_Remove name w =
     (let w' = called (SysRemove name) w in
      case namei w False name of
        Inl e \<Rightarrow> (Some (PathError ''remove'' name e), w')
      | Inr k \<Rightarrow>
          (case lookup (files w) k of
             None \<Rightarrow> (Some (PathError ''remove'' name ENOENT), w')
           | Some n \<Rightarrow>
               if n = Directory \<and> nonEmptyDir (files w) k
               then (Some (PathError ''remove'' name ENOTEMPTY), w')
               else (None, w'\<lparr>files := AList.delete k (files w)\<rparr>)))"

definition os_Symlink :: "string \<Rightarrow> string \<Rightarrow> world \<Rightarrow> error option \<times> world" where
  "os_Symlink oldname newname w =
     (let w' = called (SysSymlink oldname newname) w;
          failed = (\<lambda>e. (Some (LinkError ''symlink'' oldname newname e), w'))
      in if CHR 0x00 \<in> set oldname \<or> CHR 0x00 \<in> set newname then failed EINVAL
         else if oldname = [] then failed ENOENT
         else
           (case namei w False newname of
              Inl e \<Rightarrow> failed e
            | Inr k \<Rightarrow>
                if lookup (files w) k \<noteq> None then failed EEXIST
                else (None, w'\<lparr>files := AList.update k (Symlink oldname) (files w)\<rparr>)))"

text \<open>
  \<open>os.OpenFile(name, O_CREATE|O_WRONLY, perm)\<close>, with \<open>O_TRUNC\<close> when \<open>trunc\<close> holds: a
  symbolic link at the end of the name is followed, a file that is not there is made.
  The handle it returns is the name of the file it opened, positioned at the start.
  \<open>io_Copy\<close> is \<open>io.Copy\<close> into such a handle: the bytes are written from the start of the
  file over what is there, and what the file holds beyond them stays.
\<close>

definition os_OpenFile :: "string \<Rightarrow> bool \<Rightarrow> world \<Rightarrow> (error + string) \<times> world" where
  "os_OpenFile name trunc w =
     (let w' = called (SysOpenFile name trunc) w in
      case namei w True name of
        Inl e \<Rightarrow> (Inl (PathError ''open'' name e), w')
      | Inr k \<Rightarrow>
          (case lookup (files w) k of
             Some Directory \<Rightarrow> (Inl (PathError ''open'' name EISDIR), w')
           | Some (Symlink t) \<Rightarrow> (Inl (PathError ''open'' name ELOOP), w')
           | Some (File old) \<Rightarrow>
               (Inr k, if trunc then w'\<lparr>files := AList.update k (File []) (files w)\<rparr> else w')
           | None \<Rightarrow> (Inr k, w'\<lparr>files := AList.update k (File []) (files w)\<rparr>)))"

definition io_Copy :: "string \<Rightarrow> string \<Rightarrow> world \<Rightarrow> world" where
  "io_Copy handle bytes w =
     (case lookup (files w) handle of
        Some (File old) \<Rightarrow>
          called (SysWrite handle)
            (w\<lparr>files := AList.update handle (File (bytes @ drop (length bytes) old)) (files w)\<rparr>)
      | _ \<Rightarrow> called (SysWrite handle) w)"

text \<open>install.go, \<open>isWindows\<close>, \<open>pluginNameToBin\<close>; util.go, \<open>osArch\<close>.\<close>

definition isWindows :: "world \<Rightarrow> bool" where
  "isWindows w = ((if KREW_OS w \<noteq> [] then KREW_OS w else GOOS w) = ''windows'')"

definition pluginNameToBin :: "string \<Rightarrow> bool \<Rightarrow> string" where
  "pluginNameToBin name isWin =
     (let name1 = ReplaceByte name (CHR ''-'') (CHR ''_'');
          name2 = ''kubectl-'' @ name1
      in if isWin then name2 @ ''.exe'' else name2)"

definition osArch :: "world \<Rightarrow> string \<times> string" where
  "osArch w =
     (if KREW_OS w \<noteq> [] then KREW_OS w else GOOS w,
      if KREW_ARCH w \<noteq> [] then KREW_ARCH w else GOARCH w)"

section \<open>The manifest\<close>

text \<open>
  Modelled from the spec: the types \<open>Plugin\<close>, \<open>Platform\<close> and \<open>FileOperation\<close> of
  package index, whose declarations are not among the sources. Section 6 of the spec
  gives the shape of a manifest: a plugin name and a list of platform descriptors, each
  with a label selector, \<open>head\<close>, \<open>uri\<close>, \<open>sha256\<close>, \<open>bin\<close> and a list of \<open>{from, to}\<close>
  file operations. The field names are the ones util.go, install.go, move.go and
  util_test.go use; the platforms of a plugin are the \<open>Spec.Platforms\<close> of the source,
  and the selector is the \<open>LabelSelector\<close> of k8s.io/apimachinery behind a pointer.
\<close>

record FileOperation =
  From :: string
  To :: string

record LabelSelectorRequirement =
  Key :: string
  Operator :: string
  Values :: "string list"

record LabelSelector =
  MatchLabels :: "(string \<times> string) list"
  MatchExpressions :: "LabelSelectorRequirement list"

record Platform =
  Head :: string
  URI :: string
  Sha256 :: string
  Selector :: "LabelSelector option"
  Files :: "FileOperation list"
  Bin :: string

record Plugin =
  Name :: string
  Platforms :: "Platform list"

section \<open>Version resolution (util.go)\<close>

definition headVersion :: string where
  "headVersion = ''HEAD''"

definition headOldVersion :: string where
  "headOldVersion = ''HEAD-OLD''"

definition krewPluginName :: string where
  "krewPluginName = ''krew''"

text \<open>util.go, \<open>choosePluginVersion\<close>: the version and the download URI.\<close>

definition choosePluginVersion :: "Platform \<Rightarrow> bool \<Rightarrow> error + (string \<times> string)" where
  "choosePluginVersion p forceHEAD =
     (if (forceHEAD \<and> Head p \<noteq> []) \<or> (Head p \<noteq> [] \<and> Sha256 p = [] \<and> URI p = [])
      then Inr (headVersion, Head p)
      else if forceHEAD \<and> Head p = []
      then Inl (New (''can't force HEAD, plugin manifest does not have a '' @ [CHR 0x22] @ ''head'' @ [CHR 0x22]))
      else Inr (ToLower (Sha256 p), URI p))"

section \<open>What the model takes from outside\<close>

text \<open>
  Library code and collaborators that are not modelled are fields of one record, and the
  functions that call them take the record as their first argument; every theorem below
  holds for whatever they return.
  \<^item> \<open>Glob\<close> is \<open>filepath.Glob\<close>: the names that match a pattern in a file system.
  \<^item> \<open>validateLabelKey\<close> and \<open>validateLabelValue\<close> are the syntax checks that
    \<open>labels.NewRequirement\<close> of k8s.io/apimachinery applies to a key and to each value.
  \<^item> \<open>Get\<close> is \<open>initFetcher(url, fileOverride).Get()\<close> followed by \<open>ioutil.ReadAll\<close> on
    the body: the error of the fetch, or the bytes read and the error of the read.
  \<^item> \<open>sha256\<close> is the digest, \<open>hexDecode\<close> what \<open>hex.DecodeString\<close> leaves in
    \<open>wantedHash\<close> (its error is dropped by \<open>NewSHA256Verifier\<close>).
  \<^item> \<open>zip_NewReader\<close> and \<open>targz_Reader\<close> read an archive from bytes (see the section
    on extraction for what they return).
  \<^item> \<open>TempDir\<close> is \<open>ioutil.TempDir\<close>.
  \<^item> \<open>copyDir\<close> is move.go's copy of a tree, reached only after a rename that fails
    across devices; the model's file system has one device.
\<close>

record zip_File =
  zip_Name :: string
  zip_IsDir :: bool
  zip_Open :: "error option"
  zip_Data :: string
  zip_Read :: "error option"

record tar_Header =
  tar_Name :: string
  Typeflag :: char

datatype tar_item = TarEntry tar_Header string "error option" | TarError error

record ext =
  Glob :: "(string \<times> node) list \<Rightarrow> string \<Rightarrow> error + string list"
  validateLabelKey :: "string \<Rightarrow> error option"
  validateLabelValue :: "string \<Rightarrow> error option"
  Get :: "string \<Rightarrow> string \<Rightarrow> world \<Rightarrow> (error + string \<times> error option) \<times> world"
  sha256 :: "string \<Rightarrow> string"
  hexDecode :: "string \<Rightarrow> string"
  zip_NewReader :: "string \<Rightarrow> error + zip_File list"
  targz_Reader :: "string \<Rightarrow> error + tar_item list"
  TempDir :: "string \<Rightarrow> string \<Rightarrow> world \<Rightarrow> (error + string) \<times> world"
  copyDir :: "string \<Rightarrow> string \<Rightarrow> world \<Rightarrow> error option \<times> world"

section \<open>Sub-paths and plugin names\<close>

text \<open>
  Modelled from the spec: \<open>pathutil.IsSubPath\<close> (package pathutil is not among the
  sources). The spec speaks of a path "made relative to" its root that must not contain
  "a leading escape", and of the "second path component (relative to the install root)":
  the path is made relative to the base with \<open>filepath.Rel\<close>; it is a sub-path when that
  succeeds and the relative path does not begin with the element \<open>..\<close>, and the elements
  of the relative path are returned with it.
\<close>

definition IsSubPath :: "string \<Rightarrow> string \<Rightarrow> string list \<times> bool" where
  "IsSubPath basePath subPath =
     (case Rel basePath subPath of
        Inl err \<Rightarrow> ([], False)
      | Inr rel \<Rightarrow>
          (case splitSep rel of
             [] \<Rightarrow> ([], False)
           | e # es \<Rightarrow> if e = ''..'' then ([], False) else (e # es, True)))"

text \<open>
  Modelled from the spec: \<open>index.IsSafePluginName\<close> (package index is not among the
  sources). The spec asks of a name: "no path separators, no parent-directory segments,
  no leading dot".
\<close>

definition IsSafePluginName :: "string \<Rightarrow> bool" where
  "IsSafePluginName name =
     (CHR ''/'' \<notin> set name \<and> ''..'' \<notin> set (splitSep name) \<and> take 1 name \<noteq> ''.'')"

text \<open>
  Modelled from the spec: \<open>environment.Paths\<close> (package environment is not among the
  sources). The three roots are given; the install root holds "one subdirectory per
  plugin name, each containing one subdirectory per version".
\<close>

record Paths =
  InstallPath :: string
  BinPath :: string
  DownloadPath :: string

definition PluginInstallPath :: "Paths \<Rightarrow> string \<Rightarrow> string" where
  "PluginInstallPath p plugin = Join [InstallPath p, plugin]"

definition PluginVersionInstallPath :: "Paths \<Rightarrow> string \<Rightarrow> string \<Rightarrow> string" where
  "PluginVersionInstallPath p plugin version = Join [InstallPath p, plugin, version]"

section \<open>Relocation (move.go)\<close>

text \<open>move.go: the struct \<open>move\<close>, \<open>isMoveAllowed\<close>, \<open>getDirectMove\<close>, \<open>findMoveTargets\<close>.\<close>

record move =
  move_from :: string
  move_to :: string

definition isMoveAllowed :: "string \<Rightarrow> string \<Rightarrow> move \<Rightarrow> bool" where
  "isMoveAllowed fromBase toBase m =
     (let okFrom = snd (IsSubPath fromBase (move_from m));
          okTo = snd (IsSubPath toBase (move_to m))
      in okFrom \<and> okTo)"

definition getDirectMove ::
  "string \<Rightarrow> string \<Rightarrow> FileOperation \<Rightarrow> world \<Rightarrow> (error + move \<times> bool) \<times> world" where
  "getDirectMove fromDir0 toDir0 fo w =
     (case Abs w fromDir0 of
        Inl err \<Rightarrow> (Inl (Wrapped err ''could not get the relative path for the move src''), w)
      | Inr fromDir \<Rightarrow>
     (case Abs w toDir0 of
        Inl err \<Rightarrow> (Inl (Wrapped err ''could not get the relative path for the move src''), w)
      | Inr toDir \<Rightarrow>
     (let fromFilePath = Clean (Join [fromDir, From fo]) in
      case os_Stat fromFilePath w of
        (Inl err, w1) \<Rightarrow> (Inr (\<lparr>move_from = [], move_to = []\<rparr>, False), w1)
      | (Inr fi, w1) \<Rightarrow>
     (let fo_To = (if Clean (To fo) = ''.'' then Base fromFilePath else To fo) in
      case Abs w1 (Join [FromSlash toDir, FromSlash fo_To]) of
        Inl err \<Rightarrow> (Inl (Wrapped err ''could not get the relative path for the move dst''), w1)
      | Inr toFilePath \<Rightarrow>
     (let m = \<lparr>move_from = fromFilePath, move_to = toFilePath\<rparr> in
      if \<not> isMoveAllowed fromDir toDir m
      then (Inl (Errorf ''can't move, move target %v is out of bounds from=%q, to=%q''
                   [move_from m, move_to m, fromDir, toDir]), w1)
      else (Inr (m, True), w1))))))"

text \<open>The loop of \<open>findMoveTargets\<close> over the matches of the pattern.\<close>

fun globMoves :: "string \<Rightarrow> string \<Rightarrow> string \<Rightarrow> string list \<Rightarrow> move list \<Rightarrow> error + move list" where
  "globMoves fromDir toDir newDir [] moves = Inr moves"
| "globMoves fromDir toDir newDir (v # gl) moves =
     (let newPath = Join [newDir, Base (FromSlash v)];
          m = \<lparr>move_from = v, move_to = newPath\<rparr>
      in if \<not> isMoveAllowed fromDir toDir m
         then Inl (Errorf ''can't move, move target %v is not a subpath from=%q, to=%q''
                     [move_from m, move_to m, fromDir, toDir])
         else globMoves fromDir toDir newDir gl (moves @ [m]))"

definition findMoveTargets ::
  "ext \<Rightarrow> string \<Rightarrow> string \<Rightarrow> FileOperation \<Rightarrow> world \<Rightarrow> (error + move list) \<times> world" where
  "findMoveTargets X fromDir0 toDir fo w =
     (if To fo \<noteq> Clean (To fo)
      then (Inl (Errorf ''the provided path is not clean, %q should be %q'' [To fo, Clean (To fo)]), w)
      else
     (case Abs w fromDir0 of
        Inl err \<Rightarrow> (Inl (Wrapped err ''could not get the relative path for the move src''), w)
      | Inr fromDir \<Rightarrow>
     (case getDirectMove fromDir toDir fo w of
        (Inl err, w1) \<Rightarrow> (Inl (Wrapped err ''failed to detect single move operation''), w1)
      | (Inr (m, True), w1) \<Rightarrow> (Inr [m], w1)
      | (Inr (m, False), w1) \<Rightarrow>
     (case Abs w1 (Join [FromSlash toDir, FromSlash (To fo)]) of
        Inl err \<Rightarrow> (Inl (Wrapped err ''could not get the relative path for the move dst''), w1)
      | Inr newDir \<Rightarrow>
     (let pattern = Join [FromSlash fromDir, FromSlash (From fo)];
          w2 = called (SysGlob pattern) w1
      in case Glob X (files w1) pattern of
           Inl err \<Rightarrow> (Inl (Wrapped err ''could not get files using a glob string''), w2)
         | Inr gl \<Rightarrow>
             if length gl = 0
             then (Inl (Errorf ''no files in the plugin archive matched the glob pattern=%s'' [From fo]), w2)
             else (globMoves fromDir toDir newDir gl [], w2))))))"

text \<open>\<open>moveFiles\<close>, with its loop over the moves found, and \<open>moveAllFiles\<close>.\<close>

fun executeMoves :: "move list \<Rightarrow> world \<Rightarrow> error option \<times> world" where
  "executeMoves [] w = (None, w)"
| "executeMoves (m # moves) w =
     (case os_MkdirAll (Dir (move_to m)) w of
        (Some err, w1) \<Rightarrow> (Some (Wrapped err ''failed to create move path %q''), w1)
      | (None, w1) \<Rightarrow>
          (case os_Rename (move_from m) (move_to m) w1 of
             (Some err, w2) \<Rightarrow> (Some (Wrapped err ''could not rename file from %q to %q''), w2)
           | (None, w2) \<Rightarrow> executeMoves moves w2))"

definition moveFiles ::
  "ext \<Rightarrow> string \<Rightarrow> string \<Rightarrow> FileOperation \<Rightarrow> world \<Rightarrow> error option \<times> world" where
  "moveFiles X fromDir toDir fo w =
     (case findMoveTargets X fromDir toDir fo w of
        (Inl err, w1) \<Rightarrow> (Some (Wrapped err ''could not find move targets''), w1)
      | (Inr moves, w1) \<Rightarrow> executeMoves moves w1)"

fun moveAllFiles ::
  "ext \<Rightarrow> string \<Rightarrow> string \<Rightarrow> FileOperation list \<Rightarrow> world \<Rightarrow> error option \<times> world" where
  "moveAllFiles X fromDir toDir [] w = (None, w)"
| "moveAllFiles X fromDir toDir (fo # fos) w =
     (case moveFiles X fromDir toDir fo w of
        (Some err, w1) \<Rightarrow> (Some (Wrapped err ''failed moving files''), w1)
      | (None, w1) \<Rightarrow> moveAllFiles X fromDir toDir fos w1)"

text \<open>
  \<open>moveOrCopyDir\<close>: a directory at the target is deleted, then the rename; a rename that
  fails across devices (errno 18) falls back to the copy.
\<close>

definition renameOrCopy :: "ext \<Rightarrow> string \<Rightarrow> string \<Rightarrow> world \<Rightarrow> error option \<times> world" where
  "renameOrCopy X from_dir to_dir w =
     (case os_Rename from_dir to_dir w of
        (Some (LinkError opn a b e), w1) \<Rightarrow>
          if e = EXDEV then copyDir X from_dir to_dir w1 else (Some (LinkError opn a b e), w1)
      | (err, w1) \<Rightarrow> (err, w1))"

definition moveOrCopyDir :: "ext \<Rightarrow> string \<Rightarrow> string \<Rightarrow> world \<Rightarrow> error option \<times> world" where
  "moveOrCopyDir X from_dir to_dir w =
     (case os_Stat to_dir w of
        (Inl err, w1) \<Rightarrow>
          if \<not> IsNotExist err then (Some (Wrapped err ''error checking move target dir %q''), w1)
          else renameOrCopy X from_dir to_dir w1
      | (Inr fi, w1) \<Rightarrow>
          if fi = Directory
          then (case os_RemoveAll to_dir w1 of
                  (Some err, w2) \<Rightarrow> (Some (Wrapped err ''error cleaning up dir %q''), w2)
                | (None, w2) \<Rightarrow> renameOrCopy X from_dir to_dir w2)
          else renameOrCopy X from_dir to_dir w1)"

section \<open>Platform selection (util.go)\<close>

text \<open>
  The label selectors of k8s.io/apimachinery. \<open>LabelSelectorAsSelector\<close> turns the
  selector of a manifest into requirements: a nil selector selects nothing, an empty one
  everything; every pair of \<open>MatchLabels\<close> is an equality, every expression must carry
  one of the four operators \<open>In\<close>, \<open>NotIn\<close>, \<open>Exists\<close>, \<open>DoesNotExist\<close>, and
  \<open>NewRequirement\<close> checks the key, the number of values the operator takes, and each
  value. A Go map has no order of iteration; the model reads \<open>MatchLabels\<close> in the
  order of the list, which can change which of several errors is returned and nothing
  else. A set of labels is the list of its pairs.
\<close>

datatype selection_Operator = Equals | In | NotIn | Exists | DoesNotExist

record Requirement =
  req_key :: string
  req_operator :: selection_Operator
  req_strValues :: "string list"

datatype Selector = Nothing | Requirements "Requirement list"

fun validateValues :: "ext \<Rightarrow> string list \<Rightarrow> error option" where
  "validateValues X [] = None"
| "validateValues X (v # vs) =
     (case validateLabelValue X v of Some err \<Rightarrow> Some err | None \<Rightarrow> validateValues X vs)"

definition NewRequirement :: "ext \<Rightarrow> string \<Rightarrow> selection_Operator \<Rightarrow> string list \<Rightarrow> error + Requirement" where
  "NewRequirement X key opr vals =
     (case validateLabelKey X key of
        Some err \<Rightarrow> Inl err
      | None \<Rightarrow>
          if (opr = In \<or> opr = NotIn) \<and> length vals = 0
          then Inl (New ''for 'in', 'notin' operators, values set can't be empty'')
          else if opr = Equals \<and> length vals \<noteq> 1
          then Inl (New ''exact-match compatibility requires one single value'')
          else if (opr = Exists \<or> opr = DoesNotExist) \<and> length vals \<noteq> 0
          then Inl (New ''values set must be empty for exists and does not exist'')
          else (case validateValues X vals of
                  Some err \<Rightarrow> Inl err
                | None \<Rightarrow> Inr \<lparr>req_key = key, req_operator = opr, req_strValues = vals\<rparr>))"

fun matchLabelsRequirements :: "ext \<Rightarrow> (string \<times> string) list \<Rightarrow> error + Requirement list" where
  "matchLabelsRequirements X [] = Inr []"
| "matchLabelsRequirements X ((k, v) # kvs) =
     (case NewRequirement X k Equals [v] of
        Inl err \<Rightarrow> Inl err
      | Inr r \<Rightarrow>
          (case matchLabelsRequirements X kvs of Inl err \<Rightarrow> Inl err | Inr rs \<Rightarrow> Inr (r # rs)))"

definition selectorOperator :: "string \<Rightarrow> error + selection_Operator" where
  "selectorOperator opr =
     (if opr = ''In'' then Inr In
      else if opr = ''NotIn'' then Inr NotIn
      else if opr = ''Exists'' then Inr Exists
      else if opr = ''DoesNotExist'' then Inr DoesNotExist
      else Inl (Errorf ''%q is not a valid pod selector operator'' [opr]))"

fun matchExpressionsRequirements :: "ext \<Rightarrow> LabelSelectorRequirement list \<Rightarrow> error + Requirement list" where
  "matchExpressionsRequirements X [] = Inr []"
| "matchExpressionsRequirements X (expr # exprs) =
     (case selectorOperator (Operator expr) of
        Inl err \<Rightarrow> Inl err
      | Inr opr \<Rightarrow>
          (case NewRequirement X (Key expr) opr (Values expr) of
             Inl err \<Rightarrow> Inl err
           | Inr r \<Rightarrow>
               (case matchExpressionsRequirements X exprs of
                  Inl err \<Rightarrow> Inl err
                | Inr rs \<Rightarrow> Inr (r # rs))))"

definition LabelSelectorAsSelector :: "ext \<Rightarrow> LabelSelector option \<Rightarrow> error + Selector" where
  "LabelSelectorAsSelector X ps =
     (case ps of
        None \<Rightarrow> Inr Nothing
      | Some sel \<Rightarrow>
          if length (MatchLabels sel) + length (MatchExpressions sel) = 0
          then Inr (Requirements [])
          else (case matchLabelsRequirements X (MatchLabels sel) of
                  Inl err \<Rightarrow> Inl err
                | Inr rs1 \<Rightarrow>
                    (case matchExpressionsRequirements X (MatchExpressions sel) of
                       Inl err \<Rightarrow> Inl err
                     | Inr rs2 \<Rightarrow> Inr (Requirements (rs1 @ rs2)))))"

definition Requirement_Matches :: "Requirement \<Rightarrow> (string \<times> string) list \<Rightarrow> bool" where
  "Requirement_Matches r ls =
     (case map_of ls (req_key r) of
        None \<Rightarrow> req_operator r = NotIn \<or> req_operator r = DoesNotExist
      | Some v \<Rightarrow>
          (case req_operator r of
             In \<Rightarrow> v \<in> set (req_strValues r)
           | Equals \<Rightarrow> v \<in> set (req_strValues r)
           | NotIn \<Rightarrow> v \<notin> set (req_strValues r)
           | Exists \<Rightarrow> True
           | DoesNotExist \<Rightarrow> False))"

fun Matches :: "Selector \<Rightarrow> (string \<times> string) list \<Rightarrow> bool" where
  "Matches Nothing ls = False"
| "Matches (Requirements rs) ls = list_all (\<lambda>r. Requirement_Matches r ls) rs"

definition emptyPlatform :: Platform where
  "emptyPlatform = \<lparr>Head = [], URI = [], Sha256 = [], Selector = None, Files = [], Bin = []\<rparr>"

text \<open>
  util.go, \<open>matchPlatformToSystemEnvs\<close>: the triple the function returns, the error last.
\<close>

fun matchPlatforms :: "ext \<Rightarrow> (string \<times> string) list \<Rightarrow> Platform list \<Rightarrow> Platform \<times> bool \<times> error option" where
  "matchPlatforms X envLabels [] = (emptyPlatform, False, None)"
| "matchPlatforms X envLabels (platform # platforms) =
     (case LabelSelectorAsSelector X (Selector platform) of
        Inl err \<Rightarrow> (emptyPlatform, False, Some (Wrapped err ''failed to compile label selector''))
      | Inr sel \<Rightarrow>
          if Matches sel envLabels then (platform, True, None)
          else matchPlatforms X envLabels platforms)"

definition matchPlatformToSystemEnvs ::
  "ext \<Rightarrow> Platform list \<Rightarrow> string \<Rightarrow> string \<Rightarrow> Platform \<times> bool \<times> error option" where
  "matchPlatformToSystemEnvs X platforms os arch =
     (let envLabels = [(''os'', os), (''arch'', arch)] in matchPlatforms X envLabels platforms)"

section \<open>The installed version (util.go)\<close>

text \<open>\<open>pluginVersionFromPath\<close>: the second element of the path below the install root.\<close>

definition pluginVersionFromPath :: "string \<Rightarrow> string \<Rightarrow> error + string" where
  "pluginVersionFromPath installPath pluginPath =
     (case IsSubPath installPath pluginPath of
        (elems, ok) \<Rightarrow>
          if \<not> ok \<or> length elems < 2
          then Inl (Errorf ''failed to get the version from execution path=%q, with install path=%q''
                      [pluginPath, installPath])
          else Inr (elems ! 1))"

text \<open>\<open>findInstalledPluginVersion\<close> returns the triple of the source: name, installed, err.\<close>

definition findInstalledPluginVersion ::
  "string \<Rightarrow> string \<Rightarrow> string \<Rightarrow> world \<Rightarrow> (string \<times> bool \<times> error option) \<times> world" where
  "findInstalledPluginVersion installPath binDir pluginName w =
     (if \<not> IsSafePluginName pluginName
      then (([], False, Some (Errorf ''the plugin name %q is not allowed'' [pluginName])), w)
      else
     (case os_Readlink (Join [binDir, pluginNameToBin pluginName (isWindows w)]) w of
        (Inl err, w1) \<Rightarrow>
          if IsNotExist err then (([], False, None), w1)
          else (([], False, Some (Wrapped err ''could not read plugin link'')), w1)
      | (Inr link0, w1) \<Rightarrow>
     (case (if \<not> IsAbs link0 then Abs w1 (Join [binDir, link0]) else Inr link0) of
        Inl err \<Rightarrow>
          (([], True, Some (Wrapped err ''failed to get the absolute path for the link of %q'')), w1)
      | Inr link \<Rightarrow>
     (case pluginVersionFromPath installPath link of
        Inl err \<Rightarrow> (([], True, Some (Wrapped err ''cloud not parse plugin version'')), w1)
      | Inr name \<Rightarrow> ((name, True, None), w1)))))"

section \<open>Extraction (unarchive.go)\<close>

text \<open>
  An archive is what its reader makes of the bytes. \<open>zip.NewReader\<close> fails or lists the
  files of the central directory: the name, whether \<open>FileInfo().IsDir()\<close> holds, the
  error of \<open>Open\<close>, the bytes that can be read and the error that ends the reading.
  \<open>gzip.NewReader\<close> fails, or the tar reader yields one item for every call of \<open>Next\<close>:
  a header with the bytes and the read error of its body, or the error of \<open>Next\<close>; after
  the last item \<open>Next\<close> returns \<open>io.EOF\<close>.
\<close>

text \<open>The type flags \<open>tar.TypeReg\<close> and \<open>tar.TypeDir\<close>; \<open>extractZIP\<close> and \<open>extractTARGZ\<close>.\<close>

definition TypeReg :: char where
  "TypeReg = CHR ''0''"

definition TypeDir :: char where
  "TypeDir = CHR ''5''"

fun extractZIP_files :: "string \<Rightarrow> zip_File list \<Rightarrow> world \<Rightarrow> error option \<times> world" where
  "extractZIP_files targetDir [] w = (None, w)"
| "extractZIP_files targetDir (f # fs) w =
     (let path = Join [targetDir, FromSlash (zip_Name f)] in
      if zip_IsDir f then extractZIP_files targetDir fs (snd (os_MkdirAll path w))
      else
        (case zip_Open f of
           Some err \<Rightarrow> (Some (Wrapped err ''could not open inflating zip file''), w)
         | None \<Rightarrow>
             (case os_OpenFile path True w of
                (Inl err, w1) \<Rightarrow> (Some (Wrapped err ''can't create file in zip destination dir''), w1)
              | (Inr dst, w1) \<Rightarrow>
                  (let w2 = io_Copy dst (zip_Data f) w1 in
                   case zip_Read f of
                     Some err \<Rightarrow> (Some (Wrapped err ''can't copy content to zip destination file''), w2)
                   | None \<Rightarrow> extractZIP_files targetDir fs w2))))"

definition extractZIP :: "string \<Rightarrow> error + zip_File list \<Rightarrow> world \<Rightarrow> error option \<times> world" where
  "extractZIP targetDir zipReader w =
     (case zipReader of
        Inl err \<Rightarrow> (Some err, w)
      | Inr fs \<Rightarrow> extractZIP_files targetDir fs w)"

fun extractTARGZ_items :: "string \<Rightarrow> tar_item list \<Rightarrow> world \<Rightarrow> error option \<times> world" where
  "extractTARGZ_items targetDir [] w = (None, w)"
| "extractTARGZ_items targetDir (TarError err # items) w =
     (Some (Wrapped err ''tar extraction error''), w)"
| "extractTARGZ_items targetDir (TarEntry hdr body rerr # items) w =
     (if tar_Name hdr = ''pax_global_header'' then extractTARGZ_items targetDir items w
      else
        let path = Join [targetDir, FromSlash (tar_Name hdr)] in
        if Typeflag hdr = TypeDir then
          (case os_MkdirAll path w of
             (Some err, w1) \<Rightarrow> (Some (Wrapped err ''failed to create directory from tar''), w1)
           | (None, w1) \<Rightarrow> extractTARGZ_items targetDir items w1)
        else if Typeflag hdr = TypeReg then
          (case os_OpenFile path False w of
             (Inl err, w1) \<Rightarrow> (Some (Wrapped err ''failed to create file %q''), w1)
           | (Inr f, w1) \<Rightarrow>
               (let w2 = io_Copy f body w1 in
                case rerr of
                  Some err \<Rightarrow> (Some (Wrapped err ''failed to copy %q from tar into file''), w2)
                | None \<Rightarrow> extractTARGZ_items targetDir items w2))
        else (Some (Errorf ''unable to handle file type %d for %q in tar'' [[Typeflag hdr], tar_Name hdr]), w))"

definition extractTARGZ :: "string \<Rightarrow> error + tar_item list \<Rightarrow> world \<Rightarrow> error option \<times> world" where
  "extractTARGZ targetDir gzr w =
     (case gzr of
        Inl err \<Rightarrow> (Some (Wrapped err ''failed to create gzip reader''), w)
      | Inr items \<Rightarrow> extractTARGZ_items targetDir items w)"

section \<open>Install and Remove (install.go)\<close>

text \<open>
  \<open>evaluateBinPath\<close>. After the two calls of \<open>filepath.Abs\<close> have succeeded the variable
  \<open>err\<close> of the source is nil, and it is this \<open>err\<close> that the last return wraps.
\<close>

definition evaluateBinPath :: "world \<Rightarrow> string \<Rightarrow> string \<Rightarrow> error option" where
  "evaluateBinPath w installDir executablePath =
     (case Abs w installDir of
        Inl err \<Rightarrow> Some err
      | Inr installDirAbs \<Rightarrow>
          (case Abs w executablePath of
             Inl err \<Rightarrow> Some err
           | Inr executablePathAbs \<Rightarrow>
               (let err = None in
                if \<not> snd (IsSubPath installDir executablePath)
                then Wrapf err ''executable path (%s) is not within installation directory (%d)''
                       [executablePath, installDir]
                else None)))"

text \<open>\<open>removeLink\<close>, \<open>createOrUpdateLink\<close> and \<open>Remove\<close>.\<close>

definition removeLink :: "string \<Rightarrow> world \<Rightarrow> error option \<times> world" where
  "removeLink path w =
     (case os_Lstat path w of
        (Inl err, w1) \<Rightarrow>
          if IsNotExist err then (None, w1)
          else (Some (Wrapped err ''failed to read the symlink in %q''), w1)
      | (Inr fi, w1) \<Rightarrow>
          (case fi of
             Symlink t \<Rightarrow>
               (case os_Remove path w1 of
                  (Some err, w2) \<Rightarrow> (Some (Wrapped err ''failed to remove the symlink in %q''), w2)
                | (None, w2) \<Rightarrow> (None, w2))
           | _ \<Rightarrow> (Some (Errorf ''file %q is not a symlink (mode=%s)'' [path]), w1)))"

definition createOrUpdateLink :: "string \<Rightarrow> string \<Rightarrow> world \<Rightarrow> error option \<times> world" where
  "createOrUpdateLink src dst w =
     (case removeLink dst w of
        (Some err, w1) \<Rightarrow> (Some (Wrapped err ''failed to remove old symlink''), w1)
      | (None, w1) \<Rightarrow>
          (case os_Stat src w1 of
             (Inl err, w2) \<Rightarrow>
               if IsNotExist err
               then (Wrapf (Some err) ''executable to be symlinked cannot be found at=%s'' [src], w2)
               else (case os_Symlink src dst w2 of
                       (err', w3) \<Rightarrow> (Wrap err' ''failed to create a symlink'', w3))
           | (Inr fi, w2) \<Rightarrow>
               (case os_Symlink src dst w2 of
                  (err', w3) \<Rightarrow> (Wrap err' ''failed to create a symlink'', w3))))"

definition Remove :: "Paths \<Rightarrow> string \<Rightarrow> world \<Rightarrow> error option \<times> world" where
  "Remove p name w =
     (if name = krewPluginName
      then (Some (New ''removing krew is not allowed through krew, see docs for help''), w)
      else
     (case findInstalledPluginVersion (InstallPath p) (BinPath p) name w of
        ((version, installed, Some err), w1) \<Rightarrow> (Some (Wrapped err ''can't remove plugin''), w1)
      | ((version, installed, None), w1) \<Rightarrow>
          if \<not> installed then (Some ErrIsNotInstalled, w1)
          else
            (let symlinkPath = Join [BinPath p, pluginNameToBin name (isWindows w1)] in
             case removeLink symlinkPath w1 of
               (Some err, w2) \<Rightarrow> (Some (Wrapped err ''could not uninstall symlink of plugin''), w2)
             | (None, w2) \<Rightarrow> os_RemoveAll (PluginInstallPath p name) w2)))"

text \<open>\<open>initVerifier\<close> with \<open>Verify\<close> on the bytes written, and \<open>initUnarchiver\<close>.\<close>

definition Verify :: "ext \<Rightarrow> bool \<Rightarrow> string \<Rightarrow> string \<Rightarrow> error option" where
  "Verify X isHEAD checksum bytes =
     (if isHEAD then None
      else if hexDecode X checksum = sha256 X bytes then None
      else Some (Errorf ''checksum does not match, want: %x, got %x''
                   [hexDecode X checksum, sha256 X bytes]))"

datatype Unarchiver = ZIPUnarchiver | TARGZUnarchiver

definition initUnarchiver :: "string \<Rightarrow> error + Unarchiver" where
  "initUnarchiver filename =
     (if HasSuffix filename ''.zip'' then Inr ZIPUnarchiver
      else if HasSuffix filename ''.tar.gz'' then Inr TARGZUnarchiver
      else Inl (Errorf ''cannot infer a supported archive type from filename in the url (%q)''
                  [filename]))"

fun unarchive :: "ext \<Rightarrow> Unarchiver \<Rightarrow> string \<Rightarrow> string \<Rightarrow> world \<Rightarrow> error option \<times> world" where
  "unarchive X ZIPUnarchiver dst bytes w = extractZIP dst (zip_NewReader X bytes) w"
| "unarchive X TARGZUnarchiver dst bytes w = extractTARGZ dst (targz_Reader X bytes) w"

text \<open>
  \<open>Install\<close>, in two parts. \<open>Install_staged\<close> is the body from the file operations to the
  link, which runs once the staging directory exists; whatever it returns, the deferred
  call removes the staging directory after it. A failed \<open>moveOrCopyDir\<close> defers the removal
  of the install directory, which runs first.
\<close>

definition Install_staged ::
  "ext \<Rightarrow> Paths \<Rightarrow> string \<Rightarrow> Platform \<Rightarrow> string \<Rightarrow> string \<Rightarrow> string \<Rightarrow> world \<Rightarrow> error option \<times> world" where
  "Install_staged X p name platform version extractDir stagingDir w =
     (case moveAllFiles X extractDir stagingDir (Files platform) w of
        (Some err, w1) \<Rightarrow> (Some (Wrapped err ''failed to move files''), w1)
      | (None, w1) \<Rightarrow>
     (let installDir = PluginVersionInstallPath p name version in
      case os_MkdirAll installDir w1 of
        (Some err, w2) \<Rightarrow> (Some (Wrapped err ''could not create installation directory''), w2)
      | (None, w2) \<Rightarrow>
     (case moveOrCopyDir X stagingDir installDir w2 of
        (Some err, w3) \<Rightarrow>
          (Some (Wrapped err ''could not rename from=%q to=%q''), snd (os_Remove installDir w3))
      | (None, w3) \<Rightarrow>
     (let executablePath = Join [installDir, FromSlash (Bin platform)] in
      case evaluateBinPath w3 installDir executablePath of
        Some err \<Rightarrow> (Some (Wrapped err ''symlink unsafe''), w3)
      | None \<Rightarrow>
     (let linkPath = Join [BinPath p, pluginNameToBin name (isWindows w3)] in
      case createOrUpdateLink executablePath linkPath w3 of
        (Some err, w4) \<Rightarrow> (Some (Wrapped err ''cannot link plugin''), w4)
      | (None, w4) \<Rightarrow> (None, w4))))))"

definition Install ::
  "ext \<Rightarrow> Paths \<Rightarrow> Plugin \<Rightarrow> bool \<Rightarrow> string \<Rightarrow> world \<Rightarrow> error option \<times> world" where
  "Install X p plugin forceHEAD forceDownloadFile w =
     (let name = Name plugin in
      case findInstalledPluginVersion (InstallPath p) (BinPath p) name w of
        ((v, ok, Some err), w1) \<Rightarrow> (Some err, w1)
      | ((v, ok, None), w1) \<Rightarrow>
     (if ok then (Some ErrIsAlreadyInstalled, w1)
      else
     (case osArch w1 of (userOS, userArch) \<Rightarrow>
     (case matchPlatformToSystemEnvs X (Platforms plugin) userOS userArch of
        (platform, ok', Some err) \<Rightarrow> (Some (Wrapped err ''failed to find matching platform''), w1)
      | (platform, ok', None) \<Rightarrow>
     (if \<not> ok' then (Some (Errorf ''plugin does not support platform %s/%s'' [userOS, userArch]), w1)
      else
     (case choosePluginVersion platform forceHEAD of
        Inl err \<Rightarrow> (Some (Wrapped err ''could not choose a version to download''), w1)
      | Inr (version, uri) \<Rightarrow>
     (let downloadURL = (if forceDownloadFile \<noteq> [] then forceDownloadFile else uri) in
      case initUnarchiver downloadURL of
        Inl err \<Rightarrow> (Some (Wrapped err ''cannot initialize unarchiver''), w1)
      | Inr unarchiver \<Rightarrow>
     (case Get X downloadURL forceDownloadFile w1 of
        (Inl err, w2) \<Rightarrow> (Some (Wrapped err ''download failure''), w2)
      | (Inr (bytes, Some err), w2) \<Rightarrow> (Some (Wrapped err ''could not read download content''), w2)
      | (Inr (bytes, None), w2) \<Rightarrow>
     (case Verify X (version = headVersion) (Sha256 platform) bytes of
        Some err \<Rightarrow> (Some (Wrapped err ''download could not be verified''), w2)
      | None \<Rightarrow>
     (let extractDir = Join [DownloadPath p, name] in
      case unarchive X unarchiver extractDir bytes w2 of
        (Some err, w3) \<Rightarrow> (Some (Wrapped err ''extract failure''), w3)
      | (None, w3) \<Rightarrow>
     (case TempDir X [] ''krew-temp-move'' w3 of
        (Inl err, w4) \<Rightarrow> (Some (Wrapped err ''failed to find a temporary directory''), w4)
      | (Inr stagingDir, w4) \<Rightarrow>
     (case Install_staged X p name platform version extractDir stagingDir w4 of
        (err, w5) \<Rightarrow> (err, snd (os_RemoveAll stagingDir w5))))))))))))))"

section \<open>Notions the claims are stated with\<close>

text \<open>
  A descriptor's selector compiles when \<open>LabelSelectorAsSelector\<close> returns a selector,
  and matches a set of labels when it compiles to a selector that matches it.
\<close>

definition selectorCompiles :: "ext \<Rightarrow> Platform \<Rightarrow> bool" where
  "selectorCompiles X p =
     (case LabelSelectorAsSelector X (Selector p) of Inl err \<Rightarrow> False | Inr sel \<Rightarrow> True)"

definition selectorMatches :: "ext \<Rightarrow> Platform \<Rightarrow> (string \<times> string) list \<Rightarrow> bool" where
  "selectorMatches X p ls =
     (case LabelSelectorAsSelector X (Selector p) of Inl err \<Rightarrow> False | Inr sel \<Rightarrow> Matches sel ls)"

text \<open>The name of the link of a plugin, as \<open>findInstalledPluginVersion\<close> and \<open>Remove\<close> build it.\<close>

definition linkPathOf :: "Paths \<Rightarrow> string \<Rightarrow> world \<Rightarrow> string" where
  "linkPathOf p name w = Join [BinPath p, pluginNameToBin name (isWindows w)]"

text \<open>
  The version that the link of a plugin records, as section 6 of the spec has it: "the
  resolved target of the link named for P pointing into a path whose second path
  component (relative to the install root) equals V". The name is a safe one, what is at
  its place in the binary-link directory is a symbolic link, and the target of the link,
  taken from the binary-link directory when it is relative, lies two elements or more
  below the install root.
\<close>

definition recordedVersion :: "Paths \<Rightarrow> string \<Rightarrow> world \<Rightarrow> string option" where
  "recordedVersion p name w =
     (if \<not> IsSafePluginName name then None
      else
        (case lstat w (linkPathOf p name w) of
           Inr (Symlink t) \<Rightarrow>
             (case (if IsAbs t then Inr t else Abs w (Join [BinPath p, t])) of
                Inl err \<Rightarrow> None
              | Inr l \<Rightarrow>
                  (case IsSubPath (InstallPath p) l of
                     (elems, ok) \<Rightarrow> if ok \<and> 2 \<le> length elems then Some (elems ! 1) else None))
         | _ \<Rightarrow> None))"

text \<open>
  Containment of a move, with both roots in their absolute form: the source is a
  sub-path of the extraction root and the destination a sub-path of the staging root.
\<close>

definition moveContained :: "world \<Rightarrow> string \<Rightarrow> string \<Rightarrow> move \<Rightarrow> bool" where
  "moveContained w fromDir toDir m =
     (case Abs w fromDir of
        Inl err \<Rightarrow> False
      | Inr fromRoot \<Rightarrow>
          (case Abs w toDir of
             Inl err \<Rightarrow> False
           | Inr toRoot \<Rightarrow>
               snd (IsSubPath fromRoot (move_from m)) \<and> snd (IsSubPath toRoot (move_to m))))"

text \<open>
  The candidate moves of a file operation, as section 4.6 of the spec describes them:
  when \<open>from\<close> names something that exists under the extraction root, the one direct
  move, to \<open>to\<close> under the staging root or to the base name of the source when \<open>to\<close>
  is the current directory; otherwise one move for every match of the pattern, to the
  base name of the match under the absolute form of \<open>to\<close> in the staging directory.
  No candidate is checked here.
\<close>

definition directCandidate :: "string \<Rightarrow> string \<Rightarrow> FileOperation \<Rightarrow> world \<Rightarrow> move option" where
  "directCandidate fromRoot toRoot fo w =
     (let fromFilePath = Clean (Join [fromRoot, From fo]);
          name = (if Clean (To fo) = ''.'' then Base fromFilePath else To fo)
      in case fst (os_Stat fromFilePath w) of
           Inl err \<Rightarrow> None
         | Inr fi \<Rightarrow> Some \<lparr>move_from = fromFilePath, move_to = Join [toRoot, name]\<rparr>)"

definition globCandidates :: "ext \<Rightarrow> string \<Rightarrow> string \<Rightarrow> FileOperation \<Rightarrow> world \<Rightarrow> move list" where
  "globCandidates X fromRoot toDir fo w =
     (case Abs w (Join [toDir, To fo]) of
        Inl err \<Rightarrow> []
      | Inr newDir \<Rightarrow>
          (case Glob X (files w) (Join [fromRoot, From fo]) of
             Inl err \<Rightarrow> []
           | Inr gl \<Rightarrow> map (\<lambda>v. \<lparr>move_from = v, move_to = Join [newDir, Base v]\<rparr>) gl))"

definition moveCandidates :: "ext \<Rightarrow> string \<Rightarrow> string \<Rightarrow> FileOperation \<Rightarrow> world \<Rightarrow> move list" where
  "moveCandidates X fromDir toDir fo w =
     (case Abs w fromDir of
        Inl err \<Rightarrow> []
      | Inr fromRoot \<Rightarrow>
          (case Abs w toDir of
             Inl err \<Rightarrow> []
           | Inr toRoot \<Rightarrow>
               (case directCandidate fromRoot toRoot fo w of
                  Some m \<Rightarrow> [m]
                | None \<Rightarrow> globCandidates X fromRoot toDir fo w)))"

text \<open>
  The elements that \<open>cleanElems\<close> leaves: leading \<open>..\<close> elements, in a path that is not
  rooted only, and no \<open>..\<close> after another element.
\<close>

fun normalElems :: "bool \<Rightarrow> string list \<Rightarrow> bool" where
  "normalElems r [] = True"
| "normalElems r (x # xs) = (if x = ''..'' then \<not> r \<and> normalElems r xs else ''..'' \<notin> set xs)"

section \<open>A small installation, for the examples\<close>

text \<open>
  A file system with an extracted archive under \<open>/x\<close>, an empty staging directory \<open>/s\<close>
  and the directories of the plugin manager under \<open>/k\<close>; a pattern that matches the two
  files of \<open>/x\<close>; collaborators that download a zip archive of one file.
\<close>

definition demoWorld :: world where
  "demoWorld =
     \<lparr>files = [(''/x'', Directory), (''/x/a'', File ''hello''), (''/x/b'', File ''bb''),
               (''/s'', Directory), (''/k'', Directory), (''/k/store'', Directory),
               (''/k/bin'', Directory), (''/tmp'', Directory), (''/bin'', Directory),
               (''/bin/sh'', File ''sh'')],
      trace = [], cwd = ''/'', GOOS = ''linux'', GOARCH = ''amd64'', KREW_OS = [], KREW_ARCH = []\<rparr>"

definition demoExt :: ext where
  "demoExt =
     \<lparr>Glob = (\<lambda>fs pattern.
         if pattern = ''/x/*''
         then Inr (filter (\<lambda>k. map_of fs k \<noteq> None) [''/x/a'', ''/x/b''])
         else Inr []),
      validateLabelKey = (\<lambda>k. None),
      validateLabelValue = (\<lambda>v. None),
      Get = (\<lambda>url override w. (Inr (''PK'', None), called (SysExternal ''get'') w)),
      sha256 = (\<lambda>bytes. []),
      hexDecode = (\<lambda>s. s),
      zip_NewReader = (\<lambda>bytes.
         Inr [\<lparr>zip_Name = ''bin/'', zip_IsDir = True, zip_Open = None, zip_Data = [], zip_Read = None\<rparr>,
              \<lparr>zip_Name = ''bin/tool'', zip_IsDir = False, zip_Open = None, zip_Data = ''ELF'', zip_Read = None\<rparr>]),
      targz_Reader = (\<lambda>bytes. Inr []),
      TempDir = (\<lambda>dir prefix w.
         (Inr ''/tmp/krew-temp-move1'', snd (os_MkdirAll ''/tmp/krew-temp-move1'' w))),
      copyDir = (\<lambda>from_dir to_dir w. (Some (External ''copyDir''), w))\<rparr>"

definition demoPaths :: Paths where
  "demoPaths = \<lparr>InstallPath = ''/k/store'', BinPath = ''/k/bin'', DownloadPath = ''/tmp/dl''\<rparr>"

text \<open>The same file system with a regular file where the link of the plugin \<open>foo\<close> would be.\<close>

definition demoWorldOccupied :: world where
  "demoWorldOccupied =
     demoWorld\<lparr>files := (''/k/bin/kubectl-foo'', File ''not a link'') # files demoWorld\<rparr>"

text \<open>
  The same file system with a link of the plugin \<open>foo\<close> that leads out of the install
  root, and the directories of the plugin manager with a regular file, \<open>/bin/sh\<close>, in
  the place of the binary-link directory.
\<close>

definition demoWorldStray :: world where
  "demoWorldStray =
     demoWorld\<lparr>files := (''/k/bin/kubectl-foo'', Symlink ''/bin/sh'') # files demoWorld\<rparr>"

definition demoPathsFile :: Paths where
  "demoPathsFile = \<lparr>InstallPath = ''/k/store'', BinPath = ''/bin/sh'', DownloadPath = ''/tmp/dl''\<rparr>"

text \<open>
  Three platform descriptors: the two of util_test.go, selecting the operating systems
  \<open>None\<close> and \<open>foo\<close>, and one whose selector carries an operator that does not exist.
\<close>

definition platformNone :: Platform where
  "platformNone =
     emptyPlatform\<lparr>Head := ''B'',
       Selector := Some \<lparr>MatchLabels = [(''os'', ''None'')], MatchExpressions = []\<rparr>\<rparr>"

definition platformFoo :: Platform where
  "platformFoo =
     emptyPlatform\<lparr>Head := ''A'',
       Selector := Some \<lparr>MatchLabels = [(''os'', ''foo'')], MatchExpressions = []\<rparr>\<rparr>"

definition platformBad :: Platform where
  "platformBad =
     emptyPlatform\<lparr>Head := ''C'',
       Selector := Some \<lparr>MatchLabels = [],
         MatchExpressions = [\<lparr>Key = ''os'', Operator = ''Bogus'', Values = []\<rparr>]\<rparr>\<rparr>"

text \<open>
  A plugin whose executable path climbs out of its install directory, and the zip
  archive that \<open>demoExt\<close> downloads for it: the directory \<open>bin\<close> and the file \<open>bin/tool\<close>.
\<close>

definition demoPlugin :: Plugin where
  "demoPlugin =
     \<lparr>Name = ''foo'',
      Platforms =
        [emptyPlatform\<lparr>Head := ''https://example.com/foo.zip'',
           Selector := Some \<lparr>MatchLabels = [(''os'', ''linux'')], MatchExpressions = []\<rparr>,
           Files := [\<lparr>From = ''bin/tool'', To = ''.''\<rparr>],
           Bin := ''../../../../bin/sh''\<rparr>]\<rparr>"

section \<open>Version resolution: the table and the unforced case\<close>

lemma ToLower_D: "ToLower ''D'' = ''d''"
  by code_simp

text \<open>
  C3. The four cases of the resolution table, for any head \<open>H\<close> that is declared and any
  immutable channel \<open>U\<close>, \<open>D\<close> of which something is declared: only a head and no
  force gives \<open>("HEAD", H)\<close>; head and immutable channel without force give the
  lower-cased checksum and \<open>U\<close>; the same with force gives \<open>("HEAD", H)\<close>; force without
  a head is an error. The other fields of the descriptor do not matter.
\<close>

theorem choosePluginVersion_table:
  assumes "H \<noteq> []" and "U \<noteq> [] \<or> D \<noteq> []"
  shows "choosePluginVersion (p\<lparr>Head := H, URI := [], Sha256 := []\<rparr>) False = Inr (''HEAD'', H)
       \<and> choosePluginVersion (p\<lparr>Head := H, URI := U, Sha256 := D\<rparr>) False = Inr (ToLower D, U)
       \<and> choosePluginVersion (p\<lparr>Head := H, URI := U, Sha256 := D\<rparr>) True = Inr (''HEAD'', H)
       \<and> (\<exists>err. choosePluginVersion (p\<lparr>Head := [], URI := U, Sha256 := D\<rparr>) True = Inl err)"
  using assms by (auto simp: choosePluginVersion_def headVersion_def)

theorem choosePluginVersion_table_witness:
  "choosePluginVersion \<lparr>Head = ''H'', URI = [], Sha256 = [], Selector = None, Files = [], Bin = []\<rparr> False
     = Inr (''HEAD'', ''H'')
   \<and> choosePluginVersion \<lparr>Head = ''H'', URI = ''U'', Sha256 = ''D'', Selector = None, Files = [], Bin = []\<rparr> False
     = Inr (''d'', ''U'')
   \<and> choosePluginVersion \<lparr>Head = ''H'', URI = ''U'', Sha256 = ''D'', Selector = None, Files = [], Bin = []\<rparr> True
     = Inr (''HEAD'', ''H'')
   \<and> (\<exists>err. choosePluginVersion \<lparr>Head = [], URI = ''U'', Sha256 = ''D'', Selector = None, Files = [], Bin = []\<rparr> True
     = Inl err)"
proof -
  have h: "''H'' \<noteq> []" and u: "''U'' \<noteq> [] \<or> ''D'' \<noteq> []"
    by simp_all
  show ?thesis
    using choosePluginVersion_table [OF h u, of emptyPlatform]
    by (simp add: emptyPlatform_def ToLower_D)
qed

text \<open>
  C10. Without force \<open>choosePluginVersion\<close> never returns an error: it returns the head
  when only a head is declared and the lower-cased checksum with the immutable URI
  otherwise; a descriptor that declares no head, no URI and no checksum resolves to the
  empty version and the empty URI.
\<close>

theorem choosePluginVersion_unforced_total:
  "choosePluginVersion p False =
     Inr (if Head p \<noteq> [] \<and> Sha256 p = [] \<and> URI p = [] then (headVersion, Head p)
          else (ToLower (Sha256 p), URI p))
   \<and> choosePluginVersion (p\<lparr>Head := [], URI := [], Sha256 := []\<rparr>) False = Inr ([], [])"
  by (simp add: choosePluginVersion_def ToLower_def)

section \<open>Extraction of tar archives\<close>

lemma extractTARGZ_items_append:
  "extractTARGZ_items dir (xs @ ys) w =
     (case extractTARGZ_items dir xs w of
        (None, w1) \<Rightarrow> extractTARGZ_items dir ys w1
      | (Some err, w1) \<Rightarrow> (Some err, w1))"
proof (induction dir xs w rule: extractTARGZ_items.induct)
  case (1 targetDir w)
  then show ?case by simp
next
  case (2 targetDir err items w)
  then show ?case by simp
next
  case (3 targetDir hdr body rerr items w)
  then show ?case
    by (simp add: Let_def split: prod.splits option.splits sum.splits)
qed

text \<open>
  C7. An entry named \<open>pax_global_header\<close> is skipped: the extraction of an archive that
  holds one, anywhere, returns what the extraction of the archive without it returns, so
  nothing is created for it and the entries after it are processed. An entry of another
  name whose type is neither directory nor regular file ends the extraction with the
  "unable to handle file type" error, and the file system is the one the entries before
  it have left.
\<close>

theorem extractTARGZ_skips_and_rejects:
  "(tar_Name hdr = ''pax_global_header'' \<longrightarrow>
      extractTARGZ dir (Inr (before @ TarEntry hdr body rerr # after)) w
        = extractTARGZ dir (Inr (before @ after)) w)
   \<and> (tar_Name hdr \<noteq> ''pax_global_header'' \<and> Typeflag hdr \<noteq> TypeDir \<and> Typeflag hdr \<noteq> TypeReg
        \<and> extractTARGZ_items dir before w = (None, w1) \<longrightarrow>
      extractTARGZ dir (Inr (before @ TarEntry hdr body rerr # after)) w
        = (Some (Errorf ''unable to handle file type %d for %q in tar'' [[Typeflag hdr], tar_Name hdr]), w1))"
  by (simp add: extractTARGZ_def extractTARGZ_items_append split: prod.splits option.splits)

lemma demo_tar_before:
  "extractTARGZ_items ''/x'' [TarEntry \<lparr>tar_Name = ''c'', Typeflag = TypeReg\<rparr> ''new'' None] demoWorld
     = (None, demoWorld\<lparr>files := files demoWorld @ [(''/x/c'', File ''new'')],
                        trace := [SysOpenFile ''/x/c'' False, SysWrite ''/x/c'']\<rparr>)"
  by code_simp

theorem extractTARGZ_skips_and_rejects_witness:
  "extractTARGZ ''/x''
      (Inr [TarEntry \<lparr>tar_Name = ''c'', Typeflag = TypeReg\<rparr> ''new'' None,
            TarEntry \<lparr>tar_Name = ''pax_global_header'', Typeflag = CHR ''g''\<rparr> ''comment'' None,
            TarEntry \<lparr>tar_Name = ''d'', Typeflag = TypeDir\<rparr> [] None]) demoWorld
     = extractTARGZ ''/x''
         (Inr [TarEntry \<lparr>tar_Name = ''c'', Typeflag = TypeReg\<rparr> ''new'' None,
               TarEntry \<lparr>tar_Name = ''d'', Typeflag = TypeDir\<rparr> [] None]) demoWorld
   \<and> extractTARGZ ''/x''
        (Inr [TarEntry \<lparr>tar_Name = ''c'', Typeflag = TypeReg\<rparr> ''new'' None,
              TarEntry \<lparr>tar_Name = ''l'', Typeflag = CHR ''2''\<rparr> [] None,
              TarEntry \<lparr>tar_Name = ''d'', Typeflag = TypeDir\<rparr> [] None]) demoWorld
     = (Some (Errorf ''unable to handle file type %d for %q in tar'' [''2'', ''l'']),
        demoWorld\<lparr>files := files demoWorld @ [(''/x/c'', File ''new'')],
                  trace := [SysOpenFile ''/x/c'' False, SysWrite ''/x/c'']\<rparr>)"
proof -
  let ?c = "TarEntry \<lparr>tar_Name = ''c'', Typeflag = TypeReg\<rparr> ''new'' None"
  let ?d = "TarEntry \<lparr>tar_Name = ''d'', Typeflag = TypeDir\<rparr> [] None"
  have skip: "extractTARGZ ''/x''
      (Inr ([?c] @ TarEntry \<lparr>tar_Name = ''pax_global_header'', Typeflag = CHR ''g''\<rparr> ''comment'' None # [?d]))
      demoWorld = extractTARGZ ''/x'' (Inr ([?c] @ [?d])) demoWorld"
    using extractTARGZ_skips_and_rejects
      [where hdr = "\<lparr>tar_Name = ''pax_global_header'', Typeflag = CHR ''g''\<rparr>" and dir = "''/x''"
         and before = "[?c]" and body = "''comment''" and rerr = None and after = "[?d]" and w = demoWorld]
    by simp
  have reject: "extractTARGZ ''/x''
      (Inr ([?c] @ TarEntry \<lparr>tar_Name = ''l'', Typeflag = CHR ''2''\<rparr> [] None # [?d])) demoWorld
      = (Some (Errorf ''unable to handle file type %d for %q in tar'' [''2'', ''l'']),
         demoWorld\<lparr>files := files demoWorld @ [(''/x/c'', File ''new'')],
                   trace := [SysOpenFile ''/x/c'' False, SysWrite ''/x/c'']\<rparr>)"
    using extractTARGZ_skips_and_rejects
      [where hdr = "\<lparr>tar_Name = ''l'', Typeflag = CHR ''2''\<rparr>" and dir = "''/x''"
         and before = "[?c]" and body = "[]" and rerr = None and after = "[?d]" and w = demoWorld]
      demo_tar_before
    by (simp add: TypeDir_def TypeReg_def)
  from skip reject show ?thesis by simp
qed

section \<open>Regular files of tar and zip archives\<close>

lemma lookup_update:
  "lookup (AList.update k v fs) k' =
     (if k' = ''/'' then Some Directory else if k' = k then Some v else lookup fs k')"
  by (simp add: lookup_def update_conv')

text \<open>
  What the two extractors leave in a file that exists already, where the name of the
  entry leads to it: the zip extractor opens it with \<open>O_TRUNC\<close> and the file holds the
  entry's bytes; the tar extractor opens it without, and the file keeps what it held
  beyond the length of the entry.
\<close>

lemma tar_regular_over_existing:
  assumes "tar_Name hdr \<noteq> ''pax_global_header''" and "Typeflag hdr = TypeReg"
    and "namei w True (Join [dir, FromSlash (tar_Name hdr)]) = Inr k"
    and "lookup (files w) k = Some (File old)"
  shows "lookup (files (snd (extractTARGZ dir (Inr [TarEntry hdr body None]) w))) k
           = Some (File (body @ drop (length body) old))"
proof -
  have "k \<noteq> ''/''"
    using assms(4) by (auto simp: lookup_def)
  then show ?thesis
    using assms
    by (simp add: extractTARGZ_def TypeReg_def TypeDir_def Let_def os_OpenFile_def
        io_Copy_def called_def lookup_update)
qed

lemma zip_regular_over_existing:
  assumes "\<not> zip_IsDir f" and "zip_Open f = None" and "zip_Read f = None"
    and "namei w True (Join [dir, FromSlash (zip_Name f)]) = Inr k"
    and "lookup (files w) k = Some (File old)"
  shows "lookup (files (snd (extractZIP dir (Inr [f]) w))) k = Some (File (zip_Data f))"
proof -
  have "k \<noteq> ''/''"
    using assms(5) by (auto simp: lookup_def)
  then show ?thesis
    using assms
    by (simp add: extractZIP_def Let_def os_OpenFile_def
        io_Copy_def called_def lookup_update)
qed

text \<open>
  C6. The claim fails on the code: over the existing file \<open>/x/a\<close>, which holds
  \<open>hello\<close>, the tar entry \<open>a\<close> with the bytes \<open>new\<close> leaves \<open>newlo\<close>, where the zip file
  \<open>a\<close> with the same bytes leaves \<open>new\<close>.
\<close>

theorem extractTARGZ_keeps_old_tail:
  "lookup (files (snd (extractTARGZ ''/x''
       (Inr [TarEntry \<lparr>tar_Name = ''a'', Typeflag = TypeReg\<rparr> ''new'' None]) demoWorld))) ''/x/a''
     = Some (File ''newlo'')
   \<and> lookup (files (snd (extractZIP ''/x''
       (Inr [\<lparr>zip_Name = ''a'', zip_IsDir = False, zip_Open = None, zip_Data = ''new'', zip_Read = None\<rparr>])
       demoWorld))) ''/x/a''
     = Some (File ''new'')"
  by code_simp

section \<open>Platform selection\<close>
lemma matchPlatforms_skip:
  "\<forall>q \<in> set pre. selectorCompiles X q \<and> \<not> selectorMatches X q L \<Longrightarrow>
   matchPlatforms X L (pre @ rest) = matchPlatforms X L rest"
  by (induction pre) (auto simp: selectorCompiles_def selectorMatches_def split: sum.splits)

text \<open>
  C8, as amended. When the selectors of the descriptors before the first matching one all
  compile, selection returns that first matching descriptor with true and no error; when
  every selector compiles and none matches, it returns false with no error; when the
  selectors before a descriptor compile without matching and that descriptor's selector
  does not compile, it returns false with the wrapped error of the compilation.
\<close>

theorem matchPlatformToSystemEnvs_first_match:
  "((\<forall>q \<in> set pre. selectorCompiles X q \<and> \<not> selectorMatches X q [(''os'', os), (''arch'', arch)])
      \<and> selectorMatches X p [(''os'', os), (''arch'', arch)] \<longrightarrow>
    matchPlatformToSystemEnvs X (pre @ p # post) os arch = (p, True, None))
   \<and> ((\<forall>q \<in> set platforms. selectorCompiles X q \<and> \<not> selectorMatches X q [(''os'', os), (''arch'', arch)]) \<longrightarrow>
    matchPlatformToSystemEnvs X platforms os arch = (emptyPlatform, False, None))
   \<and> ((\<forall>q \<in> set pre. selectorCompiles X q \<and> \<not> selectorMatches X q [(''os'', os), (''arch'', arch)])
      \<and> LabelSelectorAsSelector X (Selector p) = Inl err \<longrightarrow>
    matchPlatformToSystemEnvs X (pre @ p # post) os arch
      = (emptyPlatform, False, Some (Wrapped err ''failed to compile label selector'')))"
proof (intro conjI impI)
  let ?L = "[(''os'', os), (''arch'', arch)]"
  assume a: "(\<forall>q \<in> set pre. selectorCompiles X q \<and> \<not> selectorMatches X q ?L) \<and> selectorMatches X p ?L"
  then have "matchPlatforms X ?L (pre @ p # post) = matchPlatforms X ?L (p # post)"
    using matchPlatforms_skip by blast
  with a show "matchPlatformToSystemEnvs X (pre @ p # post) os arch = (p, True, None)"
    by (auto simp: matchPlatformToSystemEnvs_def selectorMatches_def split: sum.splits)
next
  let ?L = "[(''os'', os), (''arch'', arch)]"
  assume "\<forall>q \<in> set platforms. selectorCompiles X q \<and> \<not> selectorMatches X q ?L"
  then have "matchPlatforms X ?L (platforms @ []) = matchPlatforms X ?L []"
    by (rule matchPlatforms_skip)
  then show "matchPlatformToSystemEnvs X platforms os arch = (emptyPlatform, False, None)"
    by (simp add: matchPlatformToSystemEnvs_def)
next
  let ?L = "[(''os'', os), (''arch'', arch)]"
  assume a: "(\<forall>q \<in> set pre. selectorCompiles X q \<and> \<not> selectorMatches X q ?L)
      \<and> LabelSelectorAsSelector X (Selector p) = Inl err"
  then have "matchPlatforms X ?L (pre @ p # post) = matchPlatforms X ?L (p # post)"
    using matchPlatforms_skip by blast
  with a show "matchPlatformToSystemEnvs X (pre @ p # post) os arch
      = (emptyPlatform, False, Some (Wrapped err ''failed to compile label selector''))"
    by (simp add: matchPlatformToSystemEnvs_def)
qed


lemma platformNone_no_match: "selectorCompiles demoExt platformNone \<and> \<not> selectorMatches demoExt platformNone [(''os'', ''foo''), (''arch'', ''amdBar'')]"
  by code_simp
lemma platformFoo_match: "selectorMatches demoExt platformFoo [(''os'', ''foo''), (''arch'', ''amdBar'')]"
  by code_simp
lemma platformBad_error: "LabelSelectorAsSelector demoExt (Selector platformBad) = Inl (Errorf ''%q is not a valid pod selector operator'' [''Bogus''])"
  by code_simp

theorem matchPlatformToSystemEnvs_first_match_witness:
  "matchPlatformToSystemEnvs demoExt [platformNone, platformFoo, platformFoo\<lparr>Head := ''D''\<rparr>] ''foo'' ''amdBar'' = (platformFoo, True, None)
   \<and> matchPlatformToSystemEnvs demoExt [platformNone] ''foo'' ''amdBar'' = (emptyPlatform, False, None)
   \<and> matchPlatformToSystemEnvs demoExt [platformNone, platformBad, platformFoo] ''foo'' ''amdBar''
       = (emptyPlatform, False, Some (Wrapped (Errorf ''%q is not a valid pod selector operator'' [''Bogus'']) ''failed to compile label selector''))"
  using matchPlatformToSystemEnvs_first_match [where X = demoExt and pre = "[platformNone]" and p = platformFoo and post = "[platformFoo\<lparr>Head := ''D''\<rparr>]"
      and os = "''foo''" and arch = "''amdBar''"]
    matchPlatformToSystemEnvs_first_match [where X = demoExt and platforms = "[platformNone]" and os = "''foo''" and arch = "''amdBar''"]
    matchPlatformToSystemEnvs_first_match [where X = demoExt and pre = "[platformNone]" and p = platformBad and post = "[platformFoo]"
      and os = "''foo''" and arch = "''amdBar''" and err = "Errorf ''%q is not a valid pod selector operator'' [''Bogus'']"]
    platformNone_no_match platformFoo_match platformBad_error
  by simp

text \<open>
  C8, as stated, fails: a descriptor whose selector does not compile matches nothing, yet
  selection over it alone returns an error; and put before a descriptor that matches, it
  keeps selection from returning that descriptor.
\<close>

theorem matchPlatformToSystemEnvs_counterexample:
  "\<not> selectorMatches demoExt platformBad [(''os'', ''foo''), (''arch'', ''amdBar'')]
   \<and> matchPlatformToSystemEnvs demoExt [platformBad] ''foo'' ''amdBar''
       = (emptyPlatform, False, Some (Wrapped (Errorf ''%q is not a valid pod selector operator'' [''Bogus'']) ''failed to compile label selector''))
   \<and> selectorMatches demoExt platformFoo [(''os'', ''foo''), (''arch'', ''amdBar'')]
   \<and> matchPlatformToSystemEnvs demoExt [platformBad, platformFoo] ''foo'' ''amdBar''
       = (emptyPlatform, False, Some (Wrapped (Errorf ''%q is not a valid pod selector operator'' [''Bogus'']) ''failed to compile label selector''))"
  by code_simp

section \<open>Unsafe plugin names\<close>

lemma unsafe_name:
  "CHR ''/'' \<in> set name \<or> ''..'' \<in> set (splitSep name) \<Longrightarrow> \<not> IsSafePluginName name"
  by (auto simp: IsSafePluginName_def)

lemma unsafe_not_krew:
  "CHR ''/'' \<in> set name \<or> ''..'' \<in> set (splitSep name) \<Longrightarrow> name \<noteq> krewPluginName"
  by (auto simp: krewPluginName_def)

text \<open>
  C5. For a plugin name that contains a path separator or has \<open>..\<close> among its segments,
  \<open>Install\<close> and \<open>Remove\<close> return the error "the plugin name is not allowed" (\<open>Remove\<close>
  wraps it) and the state they return is the state they were given: the file system is
  the same and the trace of calls to it has not grown, so nothing was read or written.
\<close>

theorem unsafe_name_no_access:
  assumes "CHR ''/'' \<in> set name \<or> ''..'' \<in> set (splitSep name)"
  shows "Install X p (plugin\<lparr>Name := name\<rparr>) forceHEAD forceDownloadFile w
           = (Some (Errorf ''the plugin name %q is not allowed'' [name]), w)
       \<and> Remove p name w
           = (Some (Wrapped (Errorf ''the plugin name %q is not allowed'' [name]) ''can't remove plugin''), w)"
  using unsafe_name [OF assms] unsafe_not_krew [OF assms]
  by (simp add: Install_def Remove_def findInstalledPluginVersion_def)

theorem unsafe_name_no_access_witness:
  "Install demoExt demoPaths \<lparr>Name = ''../foo'', Platforms = [platformFoo]\<rparr> False [] demoWorld
           = (Some (Errorf ''the plugin name %q is not allowed'' [''../foo'']), demoWorld)
   \<and> Remove demoPaths ''../foo'' demoWorld
           = (Some (Wrapped (Errorf ''the plugin name %q is not allowed'' [''../foo'']) ''can't remove plugin''),
              demoWorld)"
proof -
  have h: "CHR ''/'' \<in> set ''../foo'' \<or> ''..'' \<in> set (splitSep ''../foo'')"
    by simp
  show ?thesis
    using unsafe_name_no_access
      [OF h, of demoExt demoPaths "\<lparr>Name = ''x'', Platforms = [platformFoo]\<rparr>" False "[]" demoWorld]
    by simp
qed

section \<open>Removal of a plugin that is not installed\<close>

text \<open>
  The version that the link records is the one that \<open>findInstalledPluginVersion\<close> finds,
  and it finds one without an error in no other case.
\<close>

lemma findInstalledPluginVersion_recorded:
  "(fst (findInstalledPluginVersion (InstallPath p) (BinPath p) name w) = (v, True, None))
     = (recordedVersion p name w = Some v)"
proof (cases "IsSafePluginName name")
  case False
  then show ?thesis
    by (simp add: findInstalledPluginVersion_def recordedVersion_def)
next
  case safe: True
  show ?thesis
  proof (cases "lstat w (linkPathOf p name w)")
    case (Inl e)
    with safe show ?thesis
      by (simp add: findInstalledPluginVersion_def recordedVersion_def os_Readlink_def linkPathOf_def)
  next
    case (Inr n)
    with safe show ?thesis
      by (cases n)
        (auto simp: findInstalledPluginVersion_def recordedVersion_def os_Readlink_def linkPathOf_def
          pluginVersionFromPath_def Abs_def Getwd_def called_def split: sum.splits prod.splits if_splits)
  qed
qed

lemma Remove_unsafe:
  assumes "name \<noteq> krewPluginName" and "\<not> IsSafePluginName name"
  shows "Remove p name w
           = (Some (Wrapped (Errorf ''the plugin name %q is not allowed'' [name]) ''can't remove plugin''), w)"
  using assms by (simp add: Remove_def findInstalledPluginVersion_def)

lemma Remove_readlink_error:
  assumes "name \<noteq> krewPluginName" and "IsSafePluginName name"
    and "lstat w (linkPathOf p name w) = Inl e"
  shows "Remove p name w
           = (Some (if e = ENOENT then ErrIsNotInstalled
                    else Wrapped (Wrapped (PathError ''readlink'' (linkPathOf p name w) e)
                           ''could not read plugin link'') ''can't remove plugin''),
              w\<lparr>trace := trace w @ [SysReadlink (linkPathOf p name w)]\<rparr>)"
  using assms
  by (simp add: Remove_def findInstalledPluginVersion_def os_Readlink_def linkPathOf_def called_def)

lemma Remove_not_a_link:
  assumes "name \<noteq> krewPluginName" and "IsSafePluginName name"
    and "lstat w (linkPathOf p name w) = Inr n" and "\<forall>t. n \<noteq> Symlink t"
  shows "Remove p name w
           = (Some (Wrapped (Wrapped (PathError ''readlink'' (linkPathOf p name w) EINVAL)
                      ''could not read plugin link'') ''can't remove plugin''),
              w\<lparr>trace := trace w @ [SysReadlink (linkPathOf p name w)]\<rparr>)"
  using assms
  by (cases n)
    (simp_all add: Remove_def findInstalledPluginVersion_def os_Readlink_def linkPathOf_def called_def)

lemma Remove_stray_link:
  assumes "name \<noteq> krewPluginName" and "IsSafePluginName name"
    and "lstat w (linkPathOf p name w) = Inr (Symlink t)"
    and "recordedVersion p name w = None"
  shows "Remove p name w
           = (Some (Wrapped
                (case (if IsAbs t then Inr t else Abs w (Join [BinPath p, t])) of
                   Inl err \<Rightarrow> Wrapped err ''failed to get the absolute path for the link of %q''
                 | Inr l \<Rightarrow>
                     Wrapped (Errorf ''failed to get the version from execution path=%q, with install path=%q''
                                [l, InstallPath p]) ''cloud not parse plugin version'')
                ''can't remove plugin''),
              w\<lparr>trace := trace w @ [SysReadlink (linkPathOf p name w)]\<rparr>)"
proof (cases "if IsAbs t then Inr t else Abs w (Join [BinPath p, t])")
  case (Inl err)
  with assms show ?thesis
    by (simp add: Remove_def findInstalledPluginVersion_def os_Readlink_def linkPathOf_def called_def
        Abs_def Getwd_def split: if_splits)
next
  case (Inr l)
  with assms(4) assms(2) assms(3)
  have "pluginVersionFromPath (InstallPath p) l
          = Inl (Errorf ''failed to get the version from execution path=%q, with install path=%q''
                   [l, InstallPath p])"
    by (auto simp: recordedVersion_def pluginVersionFromPath_def split: prod.splits if_splits)
  with Inr assms(1-3) show ?thesis
    by (simp add: Remove_def findInstalledPluginVersion_def os_Readlink_def linkPathOf_def called_def
        Abs_def Getwd_def split: if_splits)
qed

text \<open>
  C9, as amended. For a plugin name other than the manager's own whose link records no
  installed version, \<open>Remove\<close> fails and leaves the file system as it was; the one call
  to the file system is the reading of the link, and for a name that is not safe there
  is none. The error is \<open>ErrIsNotInstalled\<close> exactly when the name is safe and the
  system reports that there is nothing of the name of the link (\<open>ENOENT\<close>). Otherwise: a
  name that is not safe has the error of the unsafe name; any other error of the
  system, such as \<open>ENOTDIR\<close> for a name that runs through a regular file, has the error
  "could not read plugin link", and so has something at the place of the link that is
  not a symbolic link (\<open>EINVAL\<close>); a symbolic link that records no version has the
  error of the target that cannot be made absolute or of the version that cannot be
  parsed.
\<close>

theorem Remove_absent:
  assumes "name \<noteq> krewPluginName"
    and "recordedVersion p name w = None"
  shows "fst (Remove p name w) \<noteq> None
       \<and> files (snd (Remove p name w)) = files w
       \<and> snd (Remove p name w)
           = (if IsSafePluginName name then w\<lparr>trace := trace w @ [SysReadlink (linkPathOf p name w)]\<rparr> else w)
       \<and> ((fst (Remove p name w) = Some ErrIsNotInstalled)
            = (IsSafePluginName name \<and> lstat w (linkPathOf p name w) = Inl ENOENT))
       \<and> (\<not> IsSafePluginName name \<longrightarrow>
            fst (Remove p name w)
              = Some (Wrapped (Errorf ''the plugin name %q is not allowed'' [name]) ''can't remove plugin''))
       \<and> (\<forall>e. IsSafePluginName name \<and> lstat w (linkPathOf p name w) = Inl e \<and> e \<noteq> ENOENT \<longrightarrow>
            fst (Remove p name w)
              = Some (Wrapped (Wrapped (PathError ''readlink'' (linkPathOf p name w) e)
                        ''could not read plugin link'') ''can't remove plugin''))
       \<and> (\<forall>n. IsSafePluginName name \<and> lstat w (linkPathOf p name w) = Inr n \<and> (\<forall>t. n \<noteq> Symlink t) \<longrightarrow>
            fst (Remove p name w)
              = Some (Wrapped (Wrapped (PathError ''readlink'' (linkPathOf p name w) EINVAL)
                        ''could not read plugin link'') ''can't remove plugin''))
       \<and> (\<forall>t. IsSafePluginName name \<and> lstat w (linkPathOf p name w) = Inr (Symlink t) \<longrightarrow>
            fst (Remove p name w)
              = Some (Wrapped
                  (case (if IsAbs t then Inr t else Abs w (Join [BinPath p, t])) of
                     Inl err \<Rightarrow> Wrapped err ''failed to get the absolute path for the link of %q''
                   | Inr l \<Rightarrow>
                       Wrapped (Errorf ''failed to get the version from execution path=%q, with install path=%q''
                                  [l, InstallPath p]) ''cloud not parse plugin version'')
                  ''can't remove plugin''))"
proof (cases "IsSafePluginName name")
  case False
  with Remove_unsafe [OF assms(1) False, of p w] show ?thesis
    by simp
next
  case safe: True
  show ?thesis
  proof (cases "lstat w (linkPathOf p name w)")
    case (Inl e)
    with Remove_readlink_error [OF assms(1) safe Inl] safe show ?thesis
      by simp
  next
    case (Inr n)
    show ?thesis
    proof (cases "\<exists>t. n = Symlink t")
      case False
      then have "\<forall>t. n \<noteq> Symlink t"
        by simp
      with Remove_not_a_link [OF assms(1) safe Inr] safe Inr show ?thesis
        by simp
    next
      case True
      then obtain t where n: "n = Symlink t"
        by blast
      with Remove_stray_link [OF assms(1) safe _ assms(2), of t] safe Inr show ?thesis
        by simp
    qed
  qed
qed

lemma demo_foo_safe: "IsSafePluginName ''foo''"
  by code_simp

lemma demo_foo_link:
  "linkPathOf demoPaths ''foo'' demoWorld = ''/k/bin/kubectl-foo''"
  "linkPathOf demoPaths ''foo'' demoWorldOccupied = ''/k/bin/kubectl-foo''"
  "linkPathOf demoPaths ''foo'' demoWorldStray = ''/k/bin/kubectl-foo''"
  "linkPathOf demoPathsFile ''foo'' demoWorld = ''/bin/sh/kubectl-foo''"
  by code_simp+

text \<open>
  Four plugins that are not installed. Nothing is at the place of the link of \<open>foo\<close>:
  \<open>ErrIsNotInstalled\<close>. The binary-link directory is the regular file \<open>/bin/sh\<close>: the
  system answers \<open>ENOTDIR\<close>. A regular file is at the place of the link: \<open>EINVAL\<close>. The
  link leads to \<open>/bin/sh\<close>, which is not below the install root.
\<close>

theorem Remove_absent_witness:
  "Remove demoPaths ''foo'' demoWorld
     = (Some ErrIsNotInstalled, demoWorld\<lparr>trace := trace demoWorld @ [SysReadlink ''/k/bin/kubectl-foo'']\<rparr>)
   \<and> Remove demoPathsFile ''foo'' demoWorld
     = (Some (Wrapped (Wrapped (PathError ''readlink'' ''/bin/sh/kubectl-foo'' ENOTDIR)
                ''could not read plugin link'') ''can't remove plugin''),
        demoWorld\<lparr>trace := trace demoWorld @ [SysReadlink ''/bin/sh/kubectl-foo'']\<rparr>)
   \<and> Remove demoPaths ''foo'' demoWorldOccupied
     = (Some (Wrapped (Wrapped (PathError ''readlink'' ''/k/bin/kubectl-foo'' EINVAL)
                ''could not read plugin link'') ''can't remove plugin''),
        demoWorldOccupied\<lparr>trace := trace demoWorldOccupied @ [SysReadlink ''/k/bin/kubectl-foo'']\<rparr>)
   \<and> fst (Remove demoPaths ''foo'' demoWorldStray)
     = Some (Wrapped (Wrapped (Errorf ''failed to get the version from execution path=%q, with install path=%q''
                                 [''/bin/sh'', ''/k/store''])
               ''cloud not parse plugin version'') ''can't remove plugin'')
   \<and> files (snd (Remove demoPaths ''foo'' demoWorldStray)) = files demoWorldStray
   \<and> Remove demoPaths ''../foo'' demoWorld
     = (Some (Wrapped (Errorf ''the plugin name %q is not allowed'' [''../foo'']) ''can't remove plugin''),
        demoWorld)"
proof -
  have k: "''foo'' \<noteq> krewPluginName" "''../foo'' \<noteq> krewPluginName"
    by (simp_all add: krewPluginName_def)
  have unsafe: "\<not> IsSafePluginName ''../foo''"
    by code_simp
  have r1: "recordedVersion demoPaths ''foo'' demoWorld = None"
    and r2: "recordedVersion demoPathsFile ''foo'' demoWorld = None"
    and r3: "recordedVersion demoPaths ''foo'' demoWorldOccupied = None"
    and r4: "recordedVersion demoPaths ''foo'' demoWorldStray = None"
    and r5: "recordedVersion demoPaths ''../foo'' demoWorld = None"
    by code_simp+
  have l1: "lstat demoWorld ''/k/bin/kubectl-foo'' = Inl ENOENT"
    and l2: "lstat demoWorld ''/bin/sh/kubectl-foo'' = Inl ENOTDIR"
    and l3: "lstat demoWorldOccupied ''/k/bin/kubectl-foo'' = Inr (File ''not a link'')"
    and l4: "lstat demoWorldStray ''/k/bin/kubectl-foo'' = Inr (Symlink ''/bin/sh'')"
    by code_simp+
  have ip: "InstallPath demoPaths = ''/k/store''"
    by (simp add: demoPaths_def)
  show ?thesis
    using Remove_absent [OF k(1) r1] Remove_absent [OF k(1) r2] Remove_absent [OF k(1) r3]
      Remove_absent [OF k(1) r4] Remove_absent [OF k(2) r5]
      demo_foo_safe unsafe l1 l2 l3 l4
    by (simp add: prod_eq_iff demo_foo_link IsAbs_def ip)
qed

text \<open>
  C9, as stated, fails. None of these four has an installed version recorded by a link,
  and none is the manager's own name, but \<open>Remove\<close> does not fail with
  \<open>ErrIsNotInstalled\<close>: the name \<open>../foo\<close> fails with the error of the unsafe name; the
  name \<open>foo\<close> with a regular file at the place of its link, and with a regular file for
  binary-link directory, fails with the error of reading the link; with a link that leads
  out of the install root it fails with the error of the version.
\<close>

theorem Remove_counterexample:
  "''../foo'' \<noteq> krewPluginName \<and> ''foo'' \<noteq> krewPluginName
   \<and> recordedVersion demoPaths ''../foo'' demoWorld = None
   \<and> fst (Remove demoPaths ''../foo'' demoWorld)
       = Some (Wrapped (Errorf ''the plugin name %q is not allowed'' [''../foo'']) ''can't remove plugin'')
   \<and> recordedVersion demoPaths ''foo'' demoWorldOccupied = None
   \<and> fst (Remove demoPaths ''foo'' demoWorldOccupied)
       = Some (Wrapped (Wrapped (PathError ''readlink'' ''/k/bin/kubectl-foo'' EINVAL)
                 ''could not read plugin link'') ''can't remove plugin'')
   \<and> recordedVersion demoPathsFile ''foo'' demoWorld = None
   \<and> fst (Remove demoPathsFile ''foo'' demoWorld)
       = Some (Wrapped (Wrapped (PathError ''readlink'' ''/bin/sh/kubectl-foo'' ENOTDIR)
                 ''could not read plugin link'') ''can't remove plugin'')
   \<and> recordedVersion demoPaths ''foo'' demoWorldStray = None
   \<and> fst (Remove demoPaths ''foo'' demoWorldStray)
       = Some (Wrapped (Wrapped (Errorf ''failed to get the version from execution path=%q, with install path=%q''
                                   [''/bin/sh'', ''/k/store''])
                 ''cloud not parse plugin version'') ''can't remove plugin'')"
  by code_simp

section \<open>The executable path\<close>

text \<open>
  \<open>evaluateBinPath\<close> returns an error only when the working directory cannot be
  determined: the result of the sub-path test never reaches the caller.
\<close>

lemma evaluateBinPath_only_Getwd:
  "evaluateBinPath w installDir executablePath = None
   \<or> evaluateBinPath w installDir executablePath = Some ErrGetwd"
  by (auto simp: evaluateBinPath_def Abs_def Getwd_def Wrapf_def split: sum.splits)

text \<open>
  C2. The claim fails on the code: for the install directory \<open>/k/store/foo/HEAD\<close> and
  the declared executable \<open>../../../../bin/sh\<close> the joined path is \<open>/bin/sh\<close>, which is
  not a sub-path of the install directory; \<open>evaluateBinPath\<close> returns nil all the same,
  and \<open>Install\<close> of the plugin succeeds and leaves the link \<open>kubectl-foo\<close> pointing at
  \<open>/bin/sh\<close>.
\<close>

theorem evaluateBinPath_accepts_escape:
  "Join [''/k/store/foo/HEAD'', FromSlash ''../../../../bin/sh''] = ''/bin/sh''
   \<and> snd (IsSubPath ''/k/store/foo/HEAD'' ''/bin/sh'') = False
   \<and> evaluateBinPath demoWorld ''/k/store/foo/HEAD'' ''/bin/sh'' = None
   \<and> fst (Install demoExt demoPaths demoPlugin False [] demoWorld) = None
   \<and> lookup (files (snd (Install demoExt demoPaths demoPlugin False [] demoWorld))) ''/k/bin/kubectl-foo''
       = Some (Symlink ''/bin/sh'')"
  by code_simp

section \<open>File operations whose target is not clean\<close>








section \<open>Facts about paths\<close>

text \<open>
  \<open>filepath.Clean\<close> keeps a path rooted or unrooted and changes nothing in a path that is
  clean already; what \<open>filepath.Abs\<close> returns is absolute and clean.
\<close>

lemma splitSep_nonempty [simp]: "splitSep s \<noteq> []"
  by (induction s) (auto split: list.splits)

lemma splitSep_noslash: "e \<in> set (splitSep s) \<Longrightarrow> CHR ''/'' \<notin> set e"
  by (induction s arbitrary: e) (auto split: list.splits if_splits)

lemma pathElems_ok: "e \<in> set (pathElems s) \<Longrightarrow> e \<noteq> [] \<and> e \<noteq> ''.'' \<and> CHR ''/'' \<notin> set e"
  by (auto simp: pathElems_def splitSep_noslash)

lemma splitSep_one: "CHR ''/'' \<notin> set e \<Longrightarrow> splitSep e = [e]"
  by (induction e) auto

lemma splitSep_append: "CHR ''/'' \<notin> set e \<Longrightarrow> splitSep (e @ CHR ''/'' # s) = e # splitSep s"
  by (induction e) auto

lemma splitSep_joinSep: "es \<noteq> [] \<Longrightarrow> \<forall>e \<in> set es. CHR ''/'' \<notin> set e \<Longrightarrow> splitSep (joinSep es) = es"
  by (induction es rule: joinSep.induct) (auto simp: splitSep_one splitSep_append)

lemma normal_snoc_dd: "normalElems r (xs @ [''..'']) \<longleftrightarrow> \<not> r \<and> (\<forall>x \<in> set xs. x = ''..'')"
  by (induction xs) auto

lemma normal_snoc: "e \<noteq> ''..'' \<Longrightarrow> normalElems r (xs @ [e]) \<longleftrightarrow> normalElems r xs"
  by (induction xs) auto

lemma normal_butlast: "normalElems r (xs @ [e]) \<Longrightarrow> normalElems r xs"
  by (induction xs) (auto split: if_splits)

lemma normal_mid_dd: "normalElems r (xs @ ''..'' # ys) \<Longrightarrow> \<not> r \<and> (\<forall>x \<in> set xs. x = ''..'')"
proof (induction xs)
  case Nil
  then show ?case by simp
next
  case (Cons x xs)
  then show ?case by (cases "x = ''..''") auto
qed

lemma normal_all_dd: "\<not> r \<Longrightarrow> \<forall>x \<in> set xs. x = ''..'' \<Longrightarrow> normalElems r xs"
  by (induction xs) auto

lemma cleanElems_normal: "normalElems r (rev stack) \<Longrightarrow> normalElems r (cleanElems r stack es)"
proof (induction es arbitrary: stack)
  case Nil
  then show ?case by simp
next
  case (Cons e es)
  note IH = Cons.IH and prems = Cons.prems
  show ?case
  proof (cases "e = ''..''")
    case False
    with IH [of "e # stack"] prems show ?thesis by (simp add: normal_snoc)
  next
    case dd: True
    show ?thesis
    proof (cases stack)
      case Nil
      with dd IH [of "[]"] IH [of "[''..'']"] show ?thesis by (cases r) simp_all
    next
      case stk: (Cons t ts)
      show ?thesis
      proof (cases "t = ''..''")
        case True
        from prems stk True have "\<not> r \<and> (\<forall>x \<in> set (rev ts). x = ''..'')"
          by (simp add: normal_snoc_dd)
        then have "normalElems r (rev (''..'' # ''..'' # ts))"
          by (intro normal_all_dd) auto
        then have "normalElems r (cleanElems r (''..'' # ''..'' # ts) es)"
          by (rule IH)
        with dd stk True show ?thesis by simp
      next
        case False
        from prems stk have "normalElems r (rev ts)"
          by (auto dest: normal_butlast)
        then have "normalElems r (cleanElems r ts es)"
          by (rule IH)
        with dd stk False show ?thesis by simp
      qed
    qed
  qed
qed

lemma cleanElems_id: "normalElems r (rev stack @ es) \<Longrightarrow> cleanElems r stack es = rev stack @ es"
proof (induction es arbitrary: stack)
  case Nil
  then show ?case by simp
next
  case (Cons e es)
  note IH = Cons.IH and prems = Cons.prems
  show ?case
  proof (cases "e = ''..''")
    case False
    from prems have "normalElems r (rev (e # stack) @ es)" by simp
    then have "cleanElems r (e # stack) es = rev (e # stack) @ es" by (rule IH)
    with False show ?thesis by simp
  next
    case dd: True
    with prems have all: "\<not> r \<and> (\<forall>x \<in> set (rev stack). x = ''..'')"
      using normal_mid_dd by blast
    from prems dd have "normalElems r (rev (''..'' # stack) @ es)" by simp
    then have step: "cleanElems r (''..'' # stack) es = rev (''..'' # stack) @ es" by (rule IH)
    show ?thesis
    proof (cases stack)
      case Nil
      with dd all step show ?thesis by simp
    next
      case stk: (Cons t ts)
      with all have "t = ''..''" by simp
      with dd stk step show ?thesis by simp
    qed
  qed
qed

lemma cleanElems_elems:
  "e \<in> set (cleanElems r stack es) \<Longrightarrow> e \<in> set stack \<or> e \<in> set es \<or> e = ''..''"
  by (induction r stack es rule: cleanElems.induct) (auto split: if_splits list.splits)

lemma cleanElems_pathElems_ok:
  "e \<in> set (cleanElems r [] (pathElems s)) \<Longrightarrow> e \<noteq> [] \<and> e \<noteq> ''.'' \<and> CHR ''/'' \<notin> set e"
  using cleanElems_elems [of e r "[]" "pathElems s"] pathElems_ok [of e s] by auto

lemma hd_joinSep: "es \<noteq> [] \<Longrightarrow> hd es \<noteq> [] \<Longrightarrow> joinSep es \<noteq> [] \<and> hd (joinSep es) = hd (hd es)"
  by (induction es rule: joinSep.induct) auto

lemma joinSep_Nil: "joinSep es = [] \<Longrightarrow> \<forall>e \<in> set es. e \<noteq> [] \<Longrightarrow> es = []"
  by (induction es rule: joinSep.induct) auto

lemma Clean_unrooted:
  "\<not> IsAbs p \<Longrightarrow>
   Clean p = (if cleanElems False [] (pathElems p) = [] then ''.''
              else joinSep (cleanElems False [] (pathElems p)))"
  using joinSep_Nil [of "cleanElems False [] (pathElems p)"] cleanElems_pathElems_ok [of _ False p]
  by (auto simp: Clean_def Let_def)

lemma Clean_rooted:
  "IsAbs p \<Longrightarrow> Clean p = CHR ''/'' # joinSep (cleanElems True [] (pathElems p))"
  by (simp add: Clean_def Let_def)

lemma IsAbs_Clean [simp]: "IsAbs (Clean p) = IsAbs p"
proof (cases "IsAbs p")
  case True
  then show ?thesis by (simp add: Clean_rooted) (simp add: IsAbs_def)
next
  case False
  let ?st = "cleanElems False [] (pathElems p)"
  show ?thesis
  proof (cases "?st = []")
    case True
    with False show ?thesis by (simp add: Clean_unrooted) (simp add: IsAbs_def)
  next
    case nonempty: False
    then have "hd ?st \<in> set ?st" by simp
    then have ok: "hd ?st \<noteq> [] \<and> CHR ''/'' \<notin> set (hd ?st)"
      using cleanElems_pathElems_ok by blast
    with nonempty have j: "joinSep ?st \<noteq> [] \<and> hd (joinSep ?st) = hd (hd ?st)"
      using hd_joinSep by blast
    from ok have "hd (hd ?st) \<noteq> CHR ''/''"
      by (cases "hd ?st") auto
    with j have "\<not> IsAbs (joinSep ?st)"
      by (cases "joinSep ?st") (simp_all add: IsAbs_def)
    with False nonempty show ?thesis
      by (simp add: Clean_unrooted)
  qed
qed

lemma pathElems_slash: "pathElems (CHR ''/'' # s) = pathElems s"
  by (simp add: pathElems_def)

lemma pathElems_joinSep:
  "\<forall>e \<in> set es. e \<noteq> [] \<and> e \<noteq> ''.'' \<and> CHR ''/'' \<notin> set e \<Longrightarrow> pathElems (joinSep es) = es"
proof (cases "es = []")
  case True
  then show ?thesis by (simp add: pathElems_def)
next
  case False
  assume ok: "\<forall>e \<in> set es. e \<noteq> [] \<and> e \<noteq> ''.'' \<and> CHR ''/'' \<notin> set e"
  with False have "splitSep (joinSep es) = es"
    by (simp add: splitSep_joinSep)
  with ok show ?thesis
    by (simp add: pathElems_def filter_id_conv)
qed

lemma pathElems_dot: "pathElems ''.'' = []"
  by (simp add: pathElems_def)

lemma Clean_idem [simp]: "Clean (Clean p) = Clean p"
proof (cases "IsAbs p")
  case True
  let ?st = "cleanElems True [] (pathElems p)"
  have ok: "\<forall>e \<in> set ?st. e \<noteq> [] \<and> e \<noteq> ''.'' \<and> CHR ''/'' \<notin> set e"
    using cleanElems_pathElems_ok by blast
  have "normalElems True (rev [])" by simp
  then have "normalElems True ?st" by (rule cleanElems_normal)
  then have fixed: "cleanElems True [] ?st = ?st"
    using cleanElems_id [of True "[]" ?st] by simp
  have c: "Clean p = CHR ''/'' # joinSep ?st"
    using True by (rule Clean_rooted)
  have "IsAbs (Clean p)" using True by simp
  then have "Clean (Clean p) = CHR ''/'' # joinSep (cleanElems True [] (pathElems (Clean p)))"
    by (rule Clean_rooted)
  also have "pathElems (Clean p) = ?st"
    using ok by (simp only: c pathElems_slash pathElems_joinSep)
  finally show ?thesis
    by (simp only: fixed c)
next
  case False
  let ?st = "cleanElems False [] (pathElems p)"
  have ok: "\<forall>e \<in> set ?st. e \<noteq> [] \<and> e \<noteq> ''.'' \<and> CHR ''/'' \<notin> set e"
    using cleanElems_pathElems_ok by blast
  have "normalElems False (rev [])" by simp
  then have "normalElems False ?st" by (rule cleanElems_normal)
  then have fixed: "cleanElems False [] ?st = ?st"
    using cleanElems_id [of False "[]" ?st] by simp
  have c: "Clean p = (if ?st = [] then ''.'' else joinSep ?st)"
    using False by (rule Clean_unrooted)
  have "\<not> IsAbs (Clean p)" using False by simp
  then have cc: "Clean (Clean p) =
      (if cleanElems False [] (pathElems (Clean p)) = [] then ''.''
       else joinSep (cleanElems False [] (pathElems (Clean p))))"
    by (rule Clean_unrooted)
  have "pathElems (Clean p) = ?st"
  proof (cases "?st = []")
    case True
    then show ?thesis by (simp add: c pathElems_dot)
  next
    case False
    then show ?thesis using ok by (simp add: c pathElems_joinSep)
  qed
  with cc have "Clean (Clean p) = (if ?st = [] then ''.'' else joinSep ?st)"
    by (simp only: fixed)
  with c show ?thesis by simp
qed

lemma IsAbs_nonempty: "IsAbs p \<Longrightarrow> p \<noteq> []"
  by (auto simp: IsAbs_def)

lemma Join_two: "a \<noteq> [] \<Longrightarrow> Join [a, b] = Clean (a @ CHR ''/'' # b)"
  by (simp add: Join_def)

lemma IsAbs_append: "IsAbs a \<Longrightarrow> IsAbs (a @ b)"
  by (cases a) (auto simp: IsAbs_def)

lemma IsAbs_Join: "IsAbs a \<Longrightarrow> IsAbs (Join [a, b])"
  by (simp add: Join_two IsAbs_nonempty IsAbs_append)

lemma Clean_Join: "Clean (Join es) = Join es \<or> Join es = []"
  by (auto simp: Join_def split: list.splits)

lemma Abs_IsAbs: "Abs w p = Inr a \<Longrightarrow> IsAbs a \<and> Clean a = a"
  by (auto simp: Abs_def Getwd_def IsAbs_append Join_two IsAbs_nonempty split: if_splits)

lemma Abs_idem: "Abs w p = Inr a \<Longrightarrow> Abs w a = Inr a"
  using Abs_IsAbs [of w p a] by (simp add: Abs_def)

lemma Abs_of_abs: "IsAbs p \<Longrightarrow> Abs w p = Inr (Clean p)"
  by (simp add: Abs_def)

lemma Abs_called [simp]: "Abs (called c w) p = Abs w p"
  by (simp add: Abs_def Getwd_def called_def)

lemma files_called [simp]: "files (called c w) = files w"
  by (simp add: called_def)

lemma os_Stat_snd [simp]: "snd (os_Stat p w) = called (SysStat p) w"
  by (simp add: os_Stat_def)

lemma Abs_Join_abs: "IsAbs a \<Longrightarrow> Abs w (Join [a, b]) = Inr (Join [a, b])"
  by (simp add: Abs_of_abs IsAbs_Join) (simp add: Join_two IsAbs_nonempty)

lemma IsSubPath_Clean: "IsSubPath (Clean b) x = IsSubPath b x"
  by (simp add: IsSubPath_def Rel_def split: option.splits)

lemma IsAbs_Nil [simp]: "\<not> IsAbs []"
  by (simp add: IsAbs_def)

lemma relClean_abs: "relClean b x = Some r \<Longrightarrow> IsAbs x \<Longrightarrow> IsAbs b"
  by (cases "x = b") (auto simp: relClean_def Let_def IsAbs_nonempty split: if_splits)

lemma IsSubPath_abs: "snd (IsSubPath b x) \<Longrightarrow> IsAbs x \<Longrightarrow> IsAbs b"
proof -
  assume ok: "snd (IsSubPath b x)" and x: "IsAbs x"
  from ok obtain r where "relClean (Clean b) (Clean x) = Some r"
    by (auto simp: IsSubPath_def Rel_def split: option.splits)
  moreover from x have "IsAbs (Clean x)" by simp
  ultimately have "IsAbs (Clean b)" by (rule relClean_abs)
  then show ?thesis by simp
qed

lemma isMoveAllowed_root:
  assumes "isMoveAllowed fromRoot toDir m" and "IsAbs (move_to m)" and "Abs w toDir = Inr toRoot"
  shows "isMoveAllowed fromRoot toRoot m"
proof -
  from assms(1) have ok: "snd (IsSubPath toDir (move_to m))"
    by (simp add: isMoveAllowed_def)
  from ok assms(2) have "IsAbs toDir" by (rule IsSubPath_abs)
  with assms(3) have "toRoot = Clean toDir" by (simp add: Abs_def)
  with assms(1) show ?thesis
    by (simp add: isMoveAllowed_def IsSubPath_Clean)
qed

lemma globMoves_Inr:
  "globMoves f t nd gl acc = Inr ms \<Longrightarrow>
   ms = acc @ map (\<lambda>v. \<lparr>move_from = v, move_to = Join [nd, Base v]\<rparr>) gl
   \<and> (\<forall>v \<in> set gl. isMoveAllowed f t \<lparr>move_from = v, move_to = Join [nd, Base v]\<rparr>)"
proof (induction gl arbitrary: acc)
  case Nil
  then show ?case by simp
next
  case (Cons v gl)
  let ?m = "\<lparr>move_from = v, move_to = Join [nd, Base v]\<rparr>"
  from Cons.prems have ok: "isMoveAllowed f t ?m"
    by (auto simp: FromSlash_def Let_def split: if_splits)
  with Cons.prems have "globMoves f t nd gl (acc @ [?m]) = Inr ms"
    by (simp add: FromSlash_def Let_def)
  from Cons.IH [OF this] ok show ?case by simp
qed

lemma globMoves_Inl:
  "\<exists>v \<in> set gl. \<not> isMoveAllowed f t \<lparr>move_from = v, move_to = Join [nd, Base v]\<rparr> \<Longrightarrow>
   \<exists>err. globMoves f t nd gl acc = Inl err"
  by (induction gl arbitrary: acc) (auto simp: FromSlash_def Let_def)


lemma findMoveTargets_files [simp]: "files (snd (findMoveTargets X fromDir toDir fo w)) = files w"
  by (auto simp: findMoveTargets_def getDirectMove_def os_Stat_def Let_def split: sum.splits prod.splits if_splits bool.splits)

section \<open>Relocation inside the sandbox\<close>

lemma getDirectMove_result:
  assumes A: "Abs w fromDir = Inr fromRoot" and B: "Abs w toDir = Inr toRoot"
  shows "getDirectMove fromRoot toDir fo w =
     (case directCandidate fromRoot toRoot fo w of
        None \<Rightarrow> (Inr (\<lparr>move_from = [], move_to = []\<rparr>, False),
                 called (SysStat (Clean (Join [fromRoot, From fo]))) w)
      | Some m \<Rightarrow>
          if isMoveAllowed fromRoot toRoot m
          then (Inr (m, True), called (SysStat (Clean (Join [fromRoot, From fo]))) w)
          else (Inl (Errorf ''can't move, move target %v is out of bounds from=%q, to=%q''
                       [move_from m, move_to m, fromRoot, toRoot]),
                called (SysStat (Clean (Join [fromRoot, From fo]))) w))"
proof -
  have A': "Abs w fromRoot = Inr fromRoot"
    using A by (rule Abs_idem)
  have abs: "IsAbs toRoot"
    using Abs_IsAbs [OF B] by simp
  have dst: "\<And>name. Abs w (Join [toRoot, name]) = Inr (Join [toRoot, name])"
    using abs by (simp add: Abs_Join_abs)
  let ?P = "Clean (Join [fromRoot, From fo])"
  obtain r where st: "os_Stat ?P w = (r, called (SysStat ?P) w)"
    by (simp add: os_Stat_def)
  show ?thesis
    by (cases r) (simp_all add: getDirectMove_def directCandidate_def A' B dst st FromSlash_def Let_def)
qed

lemma findMoveTargets_result:
  assumes clean: "To fo = Clean (To fo)"
    and A: "Abs w fromDir = Inr fromRoot" and B: "Abs w toDir = Inr toRoot"
  shows "fst (findMoveTargets X fromDir toDir fo w) =
     (case directCandidate fromRoot toRoot fo w of
        Some m \<Rightarrow>
          if isMoveAllowed fromRoot toRoot m then Inr [m]
          else Inl (Wrapped (Errorf ''can't move, move target %v is out of bounds from=%q, to=%q''
                       [move_from m, move_to m, fromRoot, toRoot])
                  ''failed to detect single move operation'')
      | None \<Rightarrow>
          (case Abs w (Join [toDir, To fo]) of
             Inl err \<Rightarrow> Inl (Wrapped err ''could not get the relative path for the move dst'')
           | Inr newDir \<Rightarrow>
               (case Glob X (files w) (Join [fromRoot, From fo]) of
                  Inl err \<Rightarrow> Inl (Wrapped err ''could not get files using a glob string'')
                | Inr gl \<Rightarrow>
                    if gl = []
                    then Inl (Errorf ''no files in the plugin archive matched the glob pattern=%s'' [From fo])
                    else globMoves fromRoot toDir newDir gl [])))"
  using clean
  by (simp add: findMoveTargets_def A getDirectMove_result [OF A B] FromSlash_def Let_def
      split: option.splits sum.splits)

lemma findMoveTargets_roots:
  assumes "fst (findMoveTargets X fromDir toDir fo w) = Inr moves"
  shows "To fo = Clean (To fo) \<and> (\<exists>fromRoot toRoot. Abs w fromDir = Inr fromRoot \<and> Abs w toDir = Inr toRoot)"
proof -
  from assms have c: "To fo = Clean (To fo)"
    by (auto simp: findMoveTargets_def split: if_splits)
  from assms c obtain fromRoot where A: "Abs w fromDir = Inr fromRoot"
    by (cases "Abs w fromDir") (auto simp: findMoveTargets_def)
  then have A': "Abs w fromRoot = Inr fromRoot" by (rule Abs_idem)
  from assms c A A' obtain toRoot where "Abs w toDir = Inr toRoot"
    by (cases "Abs w toDir") (auto simp: findMoveTargets_def getDirectMove_def)
  with c A show ?thesis by blast
qed

lemma moveContained_roots:
  "Abs w fromDir = Inr fromRoot \<Longrightarrow> Abs w toDir = Inr toRoot \<Longrightarrow>
   moveContained w fromDir toDir m = isMoveAllowed fromRoot toRoot m"
  by (simp add: moveContained_def isMoveAllowed_def)

lemma moveCandidates_roots:
  "Abs w fromDir = Inr fromRoot \<Longrightarrow> Abs w toDir = Inr toRoot \<Longrightarrow>
   moveCandidates X fromDir toDir fo w =
     (case directCandidate fromRoot toRoot fo w of
        Some m \<Rightarrow> [m]
      | None \<Rightarrow> globCandidates X fromRoot toDir fo w)"
  by (simp add: moveCandidates_def)

lemma glob_destination_abs:
  "Abs w p = Inr newDir \<Longrightarrow> IsAbs (Join [newDir, b])"
  using Abs_IsAbs [of w p newDir] by (simp add: IsAbs_Join)

lemma findMoveTargets_success:
  assumes ok: "fst (findMoveTargets X fromDir toDir fo w) = Inr moves"
  shows "moves = moveCandidates X fromDir toDir fo w \<and> (\<forall>m \<in> set moves. moveContained w fromDir toDir m)"
proof -
  from findMoveTargets_roots [OF ok] obtain fromRoot toRoot
    where clean: "To fo = Clean (To fo)"
      and A: "Abs w fromDir = Inr fromRoot" and B: "Abs w toDir = Inr toRoot"
    by blast
  note res = findMoveTargets_result [OF clean A B, of X]
  note cand = moveCandidates_roots [OF A B, of X fo]
  note cont = moveContained_roots [OF A B]
  show ?thesis
  proof (cases "directCandidate fromRoot toRoot fo w")
    case (Some m)
    with ok res have "isMoveAllowed fromRoot toRoot m \<and> moves = [m]"
      by (auto split: if_splits)
    with Some cand cont show ?thesis by simp
  next
    case None
    with ok res obtain newDir gl
      where N: "Abs w (Join [toDir, To fo]) = Inr newDir"
        and G: "Glob X (files w) (Join [fromRoot, From fo]) = Inr gl"
        and M: "globMoves fromRoot toDir newDir gl [] = Inr moves"
      by (auto split: sum.splits if_splits)
    from globMoves_Inr [OF M]
    have ms: "moves = map (\<lambda>v. \<lparr>move_from = v, move_to = Join [newDir, Base v]\<rparr>) gl"
      and al: "\<forall>v \<in> set gl. isMoveAllowed fromRoot toDir \<lparr>move_from = v, move_to = Join [newDir, Base v]\<rparr>"
      by simp_all
    have "moves = moveCandidates X fromDir toDir fo w"
      using None N G ms cand by (simp add: globCandidates_def)
    moreover have "\<forall>m \<in> set moves. moveContained w fromDir toDir m"
    proof
      fix m assume "m \<in> set moves"
      with ms obtain v where v: "v \<in> set gl" and m: "m = \<lparr>move_from = v, move_to = Join [newDir, Base v]\<rparr>"
        by auto
      from al v m have "isMoveAllowed fromRoot toDir m" by simp
      moreover have "IsAbs (move_to m)"
        using glob_destination_abs [OF N] m by simp
      ultimately have "isMoveAllowed fromRoot toRoot m"
        using B by (rule isMoveAllowed_root)
      with cont show "moveContained w fromDir toDir m" by simp
    qed
    ultimately show ?thesis by simp
  qed
qed

lemma findMoveTargets_violation:
  assumes cand: "m \<in> set (moveCandidates X fromDir toDir fo w)"
    and bad: "\<not> moveContained w fromDir toDir m"
  shows "\<exists>err. fst (findMoveTargets X fromDir toDir fo w) = Inl err"
proof (cases "fst (findMoveTargets X fromDir toDir fo w)")
  case (Inl err)
  then show ?thesis by simp
next
  case (Inr moves)
  from findMoveTargets_success [OF Inr] cand bad show ?thesis by blast
qed

lemma moveFiles_failure:
  assumes "fst (findMoveTargets X fromDir toDir fo w) = Inl err"
  shows "fst (moveFiles X fromDir toDir fo w) = Some (Wrapped err ''could not find move targets'')
       \<and> files (snd (moveFiles X fromDir toDir fo w)) = files w"
proof -
  obtain r w1 where r: "findMoveTargets X fromDir toDir fo w = (r, w1)"
    by (cases "findMoveTargets X fromDir toDir fo w")
  with assms have "r = Inl err" by simp
  moreover from r have "files w1 = files w"
    using findMoveTargets_files [of X fromDir toDir fo w] by simp
  ultimately show ?thesis
    using r by (simp add: moveFiles_def)
qed

text \<open>
  C1. When \<open>findMoveTargets\<close> returns moves, they are exactly the candidate moves of the
  operation, and every one of them has its source inside the extraction root and its
  destination inside the staging root. When a candidate move, direct or derived from the
  pattern, is not so contained, \<open>findMoveTargets\<close> returns an error and no list,
  \<open>moveFiles\<close> returns that error wrapped, and the file system is unchanged: nothing of
  the operation has been moved.
\<close>

theorem findMoveTargets_sandbox:
  "(fst (findMoveTargets X fromDir toDir fo w) = Inr moves \<longrightarrow>
      moves = moveCandidates X fromDir toDir fo w
      \<and> (\<forall>m \<in> set moves. moveContained w fromDir toDir m))
   \<and> ((\<exists>m \<in> set (moveCandidates X fromDir toDir fo w). \<not> moveContained w fromDir toDir m) \<longrightarrow>
      (\<exists>err. fst (findMoveTargets X fromDir toDir fo w) = Inl err
             \<and> fst (moveFiles X fromDir toDir fo w) = Some (Wrapped err ''could not find move targets''))
      \<and> files (snd (moveFiles X fromDir toDir fo w)) = files w)"
proof (intro conjI impI)
  assume "fst (findMoveTargets X fromDir toDir fo w) = Inr moves"
  then show "moves = moveCandidates X fromDir toDir fo w"
    and "\<forall>m \<in> set moves. moveContained w fromDir toDir m"
    using findMoveTargets_success by blast+
next
  assume "\<exists>m \<in> set (moveCandidates X fromDir toDir fo w). \<not> moveContained w fromDir toDir m"
  then obtain err where e: "fst (findMoveTargets X fromDir toDir fo w) = Inl err"
    using findMoveTargets_violation by blast
  from moveFiles_failure [OF e] e
  show "\<exists>err. fst (findMoveTargets X fromDir toDir fo w) = Inl err
             \<and> fst (moveFiles X fromDir toDir fo w) = Some (Wrapped err ''could not find move targets'')"
    and "files (snd (moveFiles X fromDir toDir fo w)) = files w"
    by blast+
qed

lemma demo_glob_moves:
  "fst (findMoveTargets demoExt ''/x'' ''/s'' \<lparr>From = ''*'', To = ''bin''\<rparr> demoWorld)
     = Inr [\<lparr>move_from = ''/x/a'', move_to = ''/s/bin/a''\<rparr>, \<lparr>move_from = ''/x/b'', move_to = ''/s/bin/b''\<rparr>]"
  by code_simp

lemma demo_glob_escape:
  "\<lparr>move_from = ''/x/a'', move_to = ''/a''\<rparr> \<in> set (moveCandidates demoExt ''/x'' ''/s'' \<lparr>From = ''*'', To = ''..''\<rparr> demoWorld)
   \<and> \<not> moveContained demoWorld ''/x'' ''/s'' \<lparr>move_from = ''/x/a'', move_to = ''/a''\<rparr>"
  by code_simp

lemma demo_direct_escape:
  "\<lparr>move_from = ''/bin/sh'', move_to = ''/s/sh''\<rparr> \<in> set (moveCandidates demoExt ''/x'' ''/s'' \<lparr>From = ''../bin/sh'', To = ''.''\<rparr> demoWorld)
   \<and> \<not> moveContained demoWorld ''/x'' ''/s'' \<lparr>move_from = ''/bin/sh'', move_to = ''/s/sh''\<rparr>"
  by code_simp

theorem findMoveTargets_sandbox_witness:
  "moveCandidates demoExt ''/x'' ''/s'' \<lparr>From = ''*'', To = ''bin''\<rparr> demoWorld
     = [\<lparr>move_from = ''/x/a'', move_to = ''/s/bin/a''\<rparr>, \<lparr>move_from = ''/x/b'', move_to = ''/s/bin/b''\<rparr>]
   \<and> moveContained demoWorld ''/x'' ''/s'' \<lparr>move_from = ''/x/a'', move_to = ''/s/bin/a''\<rparr>
   \<and> moveContained demoWorld ''/x'' ''/s'' \<lparr>move_from = ''/x/b'', move_to = ''/s/bin/b''\<rparr>
   \<and> (\<exists>err. fst (findMoveTargets demoExt ''/x'' ''/s'' \<lparr>From = ''*'', To = ''..''\<rparr> demoWorld) = Inl err
            \<and> fst (moveFiles demoExt ''/x'' ''/s'' \<lparr>From = ''*'', To = ''..''\<rparr> demoWorld)
                = Some (Wrapped err ''could not find move targets''))
   \<and> files (snd (moveFiles demoExt ''/x'' ''/s'' \<lparr>From = ''*'', To = ''..''\<rparr> demoWorld)) = files demoWorld
   \<and> (\<exists>err. fst (findMoveTargets demoExt ''/x'' ''/s'' \<lparr>From = ''../bin/sh'', To = ''.''\<rparr> demoWorld) = Inl err
            \<and> fst (moveFiles demoExt ''/x'' ''/s'' \<lparr>From = ''../bin/sh'', To = ''.''\<rparr> demoWorld)
                = Some (Wrapped err ''could not find move targets''))
   \<and> files (snd (moveFiles demoExt ''/x'' ''/s'' \<lparr>From = ''../bin/sh'', To = ''.''\<rparr> demoWorld)) = files demoWorld"
  using findMoveTargets_sandbox [where X = demoExt and fromDir = "''/x''" and toDir = "''/s''"
      and fo = "\<lparr>From = ''*'', To = ''bin''\<rparr>" and w = demoWorld
      and moves = "[\<lparr>move_from = ''/x/a'', move_to = ''/s/bin/a''\<rparr>, \<lparr>move_from = ''/x/b'', move_to = ''/s/bin/b''\<rparr>]"]
    findMoveTargets_sandbox [where X = demoExt and fromDir = "''/x''" and toDir = "''/s''"
      and fo = "\<lparr>From = ''*'', To = ''..''\<rparr>" and w = demoWorld]
    findMoveTargets_sandbox [where X = demoExt and fromDir = "''/x''" and toDir = "''/s''"
      and fo = "\<lparr>From = ''../bin/sh'', To = ''.''\<rparr>" and w = demoWorld]
    demo_glob_moves demo_glob_escape demo_direct_escape
  by (metis list.set_intros(1) list.set_intros(2))

end
